theory Spec2Isabelle
  imports Complex_Main "HOL-Library.Word" "HOL-Library.Sublist"
begin

section \<open>Time and sleeping\<close>

text \<open>
  The code reads the wall clock with \<^verbatim>\<open>time.time()\<close> and blocks with
  \<^verbatim>\<open>time.sleep(d)\<close>. Both are effects of the environment, so the model takes the
  clock as an oracle: \<open>clk k\<close> is the value the \<open>k\<close>-th call of \<^verbatim>\<open>time.time()\<close>
  returns. The world counts the clock reads made so far and logs every sleep, in order.
  Python floats are idealised as real numbers.
\<close>

type_synonym clock = "nat \<Rightarrow> real"

record world =
  ticks :: nat
  sleeps :: "real list"

definition time_time :: "clock \<Rightarrow> 'a world_scheme \<Rightarrow> real \<times> 'a world_scheme" where
  "time_time clk w = (clk (ticks w), w\<lparr>ticks := Suc (ticks w)\<rparr>)"

definition time_sleep :: "real \<Rightarrow> 'a world_scheme \<Rightarrow> 'a world_scheme" where
  "time_sleep d w = w\<lparr>sleeps := sleeps w @ [d]\<rparr>"

section \<open>test\_transfer.py: the rate limiter\<close>

record RateLimiter =
  rate_bytes :: real
  last_check :: real
  bytes_sent :: int

text \<open>\<^verbatim>\<open>RateLimiter.__init__(rate_mbps)\<close>\<close>

definition RateLimiter_init :: "clock \<Rightarrow> real \<Rightarrow> 'a world_scheme \<Rightarrow> RateLimiter \<times> 'a world_scheme" where
  "RateLimiter_init clk rate_mbps w =
     (let (t, w1) = time_time clk w
      in (\<lparr>rate_bytes = rate_mbps * 1024 * 1024 / 8, last_check = t, bytes_sent = 0\<rparr>, w1))"

text \<open>\<^verbatim>\<open>RateLimiter.wait(chunk_size)\<close>\<close>

definition wait :: "clock \<Rightarrow> int \<Rightarrow> RateLimiter \<times> 'a world_scheme \<Rightarrow> RateLimiter \<times> 'a world_scheme" where
  "wait clk chunk_size rw =
     (let (self, w) = rw;
          (current_time, w1) = time_time clk w;
          time_passed = current_time - last_check self;
          (self2, w2) =
            (if time_passed \<ge> 1 then
               (self\<lparr>bytes_sent := 0, last_check := current_time\<rparr>, w1)
             else if real_of_int (bytes_sent self + chunk_size) > rate_bytes self then
               (let sleep_time = 1 - time_passed;
                    w2 = time_sleep sleep_time w1;
                    (t2, w3) = time_time clk w2
                in (self\<lparr>bytes_sent := 0, last_check := t2\<rparr>, w3))
             else (self, w1))
      in (self2\<lparr>bytes_sent := bytes_sent self2 + chunk_size\<rparr>, w2))"

section \<open>test\_transfer.py: the upload\<close>

type_synonym byte = "8 word"
type_synonym bytes = "byte list"

text \<open>
  Modelled from the spec: the connection states of a session
  (\<^verbatim>\<open>libflagship.ppppapi.PPPPState\<close> is not under src/); the code only compares
  with \<open>Connected\<close>.
\<close>

datatype PPPPState = Idle | LanSearching | Connecting | Connected | Closing | Stopped

text \<open>
  Modelled from the spec: the command types and the frame types of a bulk transfer
  (\<^verbatim>\<open>libflagship.pppp\<close> is not under src/).
\<close>

datatype P2PCmdType = P2P_SEND_FILE | P2P_JSON_CMD

datatype FileTransfer = BEGIN | DATA | END

text \<open>The exceptions the code raises or catches by name.\<close>

datatype exn =
    ConnectionError string
  | ConnectionResetError
  | ConnectionRefusedError string
  | TimeoutError
  | AttributeError
  | ZeroDivisionError
  | ServiceRestartSignal string
  | ServiceStoppedError string
  | OtherException string

text \<open>
  What the session is asked to send: \<^verbatim>\<open>api.send_xzyh(payload, cmd=...)\<close> and
  \<^verbatim>\<open>api.aabb_request(payload, frametype=..., pos=...)\<close>, with the arguments of the
  call (\<open>None\<close> when \<^verbatim>\<open>pos\<close> is left out).
\<close>

datatype emission =
    Send_xzyh bytes P2PCmdType
  | Aabb_request bytes FileTransfer "nat option"

text \<open>
  The session as the uploading thread sees it. Its state and its stopped flag are changed
  by the session's own thread, so every read is an observation: \<open>state_reads\<close> and
  \<open>stopped_reads\<close> hold the values the coming reads of \<^verbatim>\<open>api.state\<close> and
  \<^verbatim>\<open>api.stopped.is_set()\<close> return, in order. A poll loop that uses them up has not
  returned (\<open>None\<close>). \<open>emitted\<close> logs what was sent.
\<close>

record api_world = world +
  state_reads :: "PPPPState list"
  stopped_reads :: "bool list"
  emitted :: "emission list"

text \<open>
  A send of the session either goes out or raises: \<open>tx k\<close> is the exception raised by
  the send made after \<open>k\<close> emissions, \<open>None\<close> when it succeeds (the transport is not
  under src/).
\<close>

type_synonym transport = "nat \<Rightarrow> exn option"

definition api_send :: "transport \<Rightarrow> emission \<Rightarrow> 'a api_world_scheme \<Rightarrow> exn + 'a api_world_scheme" where
  "api_send tx e w =
     (case tx (length (emitted w)) of
        Some err \<Rightarrow> Inl err
      | None \<Rightarrow> Inr (w\<lparr>emitted := emitted w @ [e]\<rparr>))"

text \<open>
  The loop \<^verbatim>\<open>while api.state != PPPPState.Connected: time.sleep(0.1); if
  api.stopped.is_set(): raise ConnectionError("API thread stopped")\<close>, on the reads of
  \<^verbatim>\<open>api.state\<close> and of \<^verbatim>\<open>api.stopped.is_set()\<close> still to come.
\<close>

fun wait_connected ::
  "PPPPState list \<Rightarrow> bool list \<Rightarrow> 'a api_world_scheme \<Rightarrow> (exn + 'a api_world_scheme) option" where
  "wait_connected [] sps w = None"
| "wait_connected (st # sts) sps w =
     (if st = Connected then Some (Inr (w\<lparr>state_reads := sts, stopped_reads := sps\<rparr>))
      else
        (case sps of
           [] \<Rightarrow> None
         | sp # sps' \<Rightarrow>
             if sp then Some (Inl (ConnectionError ''API thread stopped''))
             else wait_connected sts sps' (time_sleep (1 / 10) w)))"

text \<open>Python's \<^verbatim>\<open>range(start, stop, step)\<close> for a positive step.\<close>

function py_range :: "nat \<Rightarrow> nat \<Rightarrow> nat \<Rightarrow> nat list" where
  "py_range i n step = (if i < n \<and> 0 < step then i # py_range (i + step) n step else [])"
  by pat_completeness auto
termination
  by (relation "measure (\<lambda>(i, n, step). n - i)") auto

definition blocksize :: nat where
  "blocksize = 1024 * 32"

text \<open>
  The body of \<^verbatim>\<open>for pos in range(0, len(data), blocksize)\<close>: slice the chunk, throttle,
  send it as a DATA frame at \<^verbatim>\<open>pos\<close>. The counters \<^verbatim>\<open>chunk_num\<close>, \<^verbatim>\<open>total_sent\<close>
  and \<^verbatim>\<open>progress\<close> feed the log only (\<^verbatim>\<open>len(data)\<close> is positive inside the loop).
\<close>

fun send_chunks ::
  "clock \<Rightarrow> transport \<Rightarrow> bytes \<Rightarrow> nat list \<Rightarrow> RateLimiter \<times> 'a api_world_scheme
     \<Rightarrow> exn + (RateLimiter \<times> 'a api_world_scheme)" where
  "send_chunks clk tx data [] rw = Inr rw"
| "send_chunks clk tx data (pos # ps) rw =
     (let chunk = take blocksize (drop pos data);
          (rate_limiter, w) = wait clk (int (length chunk)) rw
      in case api_send tx (Aabb_request chunk DATA (Some pos)) w of
           Inl err \<Rightarrow> Inl err
         | Inr w' \<Rightarrow> send_chunks clk tx data ps (rate_limiter, w'))"

text \<open>
  \<^verbatim>\<open>send_file(api, fui, data, rate_limit_mbps)\<close>. The serialisation \<^verbatim>\<open>bytes(fui)\<close>
  (\<open>fui_bytes\<close>) and the fresh \<^verbatim>\<open>str(uuid.uuid4())\<close> (\<open>uuid4\<close>) are inputs: neither
  \<^verbatim>\<open>FileUploadInfo\<close> nor the random source is under src/. The first read of
  \<^verbatim>\<open>api.state\<close> is the one of the \<^verbatim>\<open>log.debug\<close> line before the loop: its value
  (\<open>logged\<close>) goes to the log only.
\<close>

definition encode :: "string \<Rightarrow> bytes" where
  "encode s = map (\<lambda>c. of_nat (of_char c)) s"

definition send_file ::
  "clock \<Rightarrow> transport \<Rightarrow> string \<Rightarrow> bytes \<Rightarrow> bytes \<Rightarrow> real \<Rightarrow> 'a api_world_scheme
     \<Rightarrow> (exn + 'a api_world_scheme) option" where
  "send_file clk tx uuid4 fui_bytes data rate_limit_mbps w0 =
     (case state_reads w0 of
        [] \<Rightarrow> None
      | logged # sts \<Rightarrow>
     (case wait_connected sts (stopped_reads w0) w0 of
        None \<Rightarrow> None
      | Some (Inl err) \<Rightarrow> Some (Inl err)
      | Some (Inr w1) \<Rightarrow>
          (let (rate_limiter, w2) = RateLimiter_init clk rate_limit_mbps w1;
               transfer_id = encode (take 16 uuid4)
           in case api_send tx (Send_xzyh transfer_id P2P_SEND_FILE) w2 of
                Inl err \<Rightarrow> Some (Inl err)
              | Inr w3 \<Rightarrow>
                  (let metadata = fui_bytes @ [0]
                   in case api_send tx (Aabb_request metadata BEGIN None) w3 of
                        Inl err \<Rightarrow> Some (Inl err)
                      | Inr w4 \<Rightarrow>
                          (case send_chunks clk tx data (py_range 0 (length data) blocksize)
                                  (rate_limiter, w4) of
                             Inl err \<Rightarrow> Some (Inl err)
                           | Inr (rate_limiter', w5) \<Rightarrow>
                               (case api_send tx (Aabb_request [] END None) w5 of
                                  Inl err \<Rightarrow> Some (Inl err)
                                | Inr w6 \<Rightarrow> Some (Inr w6)))))))"

section \<open>web/service/pppp.py: the PPPP service\<close>

text \<open>
  The session object (\<^verbatim>\<open>AnkerPPPPApi\<close>, not under src/) as the service reads it: its
  state, whether \<^verbatim>\<open>stopped.is_set()\<close>, whether it has a socket
  (\<^verbatim>\<open>hasattr(api, 'sock') and api.sock\<close>), whether it has the attribute
  \<^verbatim>\<open>_close_received\<close>, and its channels (\<open>None\<close> without the attribute
  \<^verbatim>\<open>chans\<close>). Within one call of the service the object is read as a snapshot.
\<close>

record session =
  state :: PPPPState
  stopped :: bool
  sock :: bool
  close_received :: bool
  chans :: "nat list option"

text \<open>
  A received packet, as far as the service and its handlers look at it:
  \<^verbatim>\<open>getattr(msg, "chan", None)\<close> and \<^verbatim>\<open>isinstance(msg, Xzyh)\<close>.
\<close>

record message =
  chan :: "int option"
  is_xzyh :: bool
  payload :: bytes

type_synonym handler = nat

text \<open>
  The calls the service makes on objects that are not under src/ (session, socket,
  channels, packet dumper, registered handlers). Each is a place where the environment
  may raise; the trace of a run lists the calls made, in order. \<open>Retry_interval\<close> is not
  a call: it notes, when \<^verbatim>\<open>worker_start\<close> goes on to a connection attempt, the value
  \<^verbatim>\<open>get_retry_interval()\<close> had returned, which the source keeps in a local variable.
\<close>

datatype op =
    Get_state
  | Sock_info
  | Send_close
  | Is_stopped
  | Api_stop
  | Iter_chans
  | Chan_close nat nat
  | Set_linger
  | Sock_shutdown
  | Sock_close
  | Dumper_close
  | Get_state_after
  | Fallback_iter_chans
  | Fallback_chan_close nat nat
  | Fallback_sock_close
  | Send_json string
  | Api_recv real
  | Api_process message
  | Handler_call handler "int option" message
  | Retry_interval nat

record printer =
  name :: string
  ip_addr :: string
  p2p_duid :: string

text \<open>
  How the connection attempt of \<^verbatim>\<open>worker_start\<close> (the \<^verbatim>\<open>try\<close> block: socket set-up,
  up to three binds, LAN search, the handshake loop with its 15 s deadline) ends. These
  lines work on local variables and on the environment; the only field of the service
  they write before success is \<^verbatim>\<open>self.dumper\<close>, so a failure is told apart by
  whether it came before or after the dump writer was attached.
\<close>

datatype connect_outcome =
    Fails_early exn
  | Fails_late exn
  | Connects session

text \<open>The environment of the service: which calls raise, and what the peer does.\<close>

record host =
  fails :: "op \<Rightarrow> bool"
  windows :: bool
  config :: "printer option"
  pppp_dump :: "string option"
  connect :: connect_outcome
  recv :: "exn + message option"
  process :: "message \<Rightarrow> exn option"
  handler_raises :: "handler \<Rightarrow> int option \<times> message \<Rightarrow> exn option"

record pppp_world = world +
  trace :: "op list"
  last_instance_log :: real

record PPPPService =
  retry_count :: nat
  last_connection_attempt :: real
  last_successful_connection :: real
  api :: "session option"
  last_heartbeat :: real
  heartbeat_fail_count :: nat
  total_restarts :: nat
  last_restart_time :: "real option"
  handlers :: "handler list"
  stopping :: bool
  dumper :: "string option"
  restart_pending :: bool
  last_cleanup_time :: real

definition INSTANCE_LOG_INTERVAL :: real where "INSTANCE_LOG_INTERVAL = 10"
definition HEARTBEAT_INTERVAL :: real where "HEARTBEAT_INTERVAL = 15"
definition MAX_RETRY_INTERVAL :: nat where "MAX_RETRY_INTERVAL = 30"
definition MAX_RETRY_COUNT :: nat where "MAX_RETRY_COUNT = 5"
definition INITIAL_RETRY_DELAY :: nat where "INITIAL_RETRY_DELAY = 2"
definition HEARTBEAT_FAIL_THRESHOLD :: nat where "HEARTBEAT_FAIL_THRESHOLD = 3"
definition CLEANUP_WAIT :: real where "CLEANUP_WAIT = 1"
definition RECONNECT_DELAY :: real where "RECONNECT_DELAY = 5"

text \<open>\<^verbatim>\<open>PPPPService.__init__\<close>\<close>

definition PPPPService_init :: PPPPService where
  "PPPPService_init =
     \<lparr>retry_count = 0, last_connection_attempt = 0, last_successful_connection = 0,
      api = None, last_heartbeat = 0, heartbeat_fail_count = 0, total_restarts = 0,
      last_restart_time = None, handlers = [], stopping = False, dumper = None,
      restart_pending = False, last_cleanup_time = 0\<rparr>"

text \<open>One call on the environment: it is noted in the trace and succeeds or raises.\<close>

definition call :: "host \<Rightarrow> op \<Rightarrow> 'a pppp_world_scheme \<Rightarrow> bool \<times> 'a pppp_world_scheme" where
  "call h c w = (\<not> fails h c, w\<lparr>trace := trace w @ [c]\<rparr>)"

text \<open>
  \<^verbatim>\<open>try: ch.rx.rx.close(); ch.rx.tx.close(); ch.tx.rx.close(); ch.tx.tx.close()
  except ...\<close>: the first close that raises ends the work on this channel.
\<close>

fun close_parts :: "host \<Rightarrow> (nat \<Rightarrow> op) \<Rightarrow> nat list \<Rightarrow> 'a pppp_world_scheme \<Rightarrow> 'a pppp_world_scheme" where
  "close_parts h mk [] w = w"
| "close_parts h mk (j # js) w =
     (let (ok, w1) = call h (mk j) w in if ok then close_parts h mk js w1 else w1)"

fun close_chans ::
  "host \<Rightarrow> (nat \<Rightarrow> nat \<Rightarrow> op) \<Rightarrow> nat list \<Rightarrow> 'a pppp_world_scheme \<Rightarrow> 'a pppp_world_scheme" where
  "close_chans h mk [] w = w"
| "close_chans h mk (ch # chs) w = close_chans h mk chs (close_parts h (mk ch) [0, 1, 2, 3] w)"

text \<open>
  \<^verbatim>\<open>cleanup_connection\<close>, lines 69 to 94: log the state, look at the socket, send the
  Close packet unless one was received, stop the session thread. \<open>Inl\<close> is the state at
  an exception that no inner handler catches.
\<close>

definition cleanup_close_stop ::
  "host \<Rightarrow> session \<Rightarrow> 'a pppp_world_scheme \<Rightarrow> 'a pppp_world_scheme + 'a pppp_world_scheme" where
  "cleanup_close_stop h a w0 =
     (let (ok, w1) = call h Get_state w0 in
      if \<not> ok then Inl w1
      else
        let w2 = (if sock a then snd (call h Sock_info w1) else w1);
            w3 = (if \<not> close_received a
                  then time_sleep (1 / 10) (snd (call h Send_close w2)) else w2);
            (ok, w4) = call h Is_stopped w3
        in if \<not> ok then Inl w4
           else
             let w5 = (if \<not> stopped a then snd (call h Api_stop w4) else w4)
             in Inr (time_sleep (1 / 10) w5))"

text \<open>Lines 96 to 104: close the buffers of every channel.\<close>

definition cleanup_chans ::
  "host \<Rightarrow> session \<Rightarrow> 'a pppp_world_scheme \<Rightarrow> 'a pppp_world_scheme + 'a pppp_world_scheme" where
  "cleanup_chans h a w =
     (case chans a of
        None \<Rightarrow> Inr w
      | Some chs \<Rightarrow>
          (let (ok, w1) = call h Iter_chans w in
           if \<not> ok then Inl w1 else Inr (close_chans h Chan_close chs w1)))"

text \<open>
  Lines 106 to 121: the socket. A failure of \<^verbatim>\<open>setsockopt\<close> is caught by the handler
  of the whole block, which skips \<^verbatim>\<open>shutdown\<close> and \<^verbatim>\<open>close\<close>.
\<close>

definition cleanup_sock :: "host \<Rightarrow> session \<Rightarrow> 'a pppp_world_scheme \<Rightarrow> 'a pppp_world_scheme" where
  "cleanup_sock h a w =
     (if sock a then
        (let (ok, w1) = (if \<not> windows h then call h Set_linger w else (True, w)) in
         if \<not> ok then w1
         else
           let w2 = snd (call h Sock_shutdown w1)
           in snd (call h Sock_close w2))
      else w)"

text \<open>Lines 123 to 147: drop the handlers, the dumper and the session.\<close>

definition cleanup_drop ::
  "clock \<Rightarrow> host \<Rightarrow> PPPPService \<times> 'a pppp_world_scheme
     \<Rightarrow> PPPPService \<times> 'a pppp_world_scheme + PPPPService \<times> 'a pppp_world_scheme" where
  "cleanup_drop clk h sw =
     (let (self, w) = sw;
          self1 = self\<lparr>handlers := []\<rparr>;
          w1 = (case dumper self1 of None \<Rightarrow> w | Some d \<Rightarrow> snd (call h Dumper_close w));
          self2 = self1\<lparr>dumper := None\<rparr>;
          (ok, w2) = (case api self2 of None \<Rightarrow> (True, w1) | Some a \<Rightarrow> call h Get_state_after w1)
      in if \<not> ok then Inl (self2, w2)
         else
           let self3 = self2\<lparr>api := None\<rparr>;
               self4 = self3\<lparr>last_heartbeat := 0, heartbeat_fail_count := 0\<rparr>;
               w3 = time_sleep CLEANUP_WAIT w2;
               (t, w4) = time_time clk w3
           in Inr (self4\<lparr>last_cleanup_time := t\<rparr>, w4))"

text \<open>The \<^verbatim>\<open>try\<close> block of \<^verbatim>\<open>cleanup_connection\<close>, lines 69 to 147.\<close>

definition cleanup_try ::
  "clock \<Rightarrow> host \<Rightarrow> session \<Rightarrow> PPPPService \<times> 'a pppp_world_scheme
     \<Rightarrow> PPPPService \<times> 'a pppp_world_scheme + PPPPService \<times> 'a pppp_world_scheme" where
  "cleanup_try clk h a sw =
     (let (self, w) = sw in
      case cleanup_close_stop h a w of
        Inl w1 \<Rightarrow> Inl (self, w1)
      | Inr w1 \<Rightarrow>
          (case cleanup_chans h a w1 of
             Inl w2 \<Rightarrow> Inl (self, w2)
           | Inr w2 \<Rightarrow> cleanup_drop clk h (self, cleanup_sock h a w2)))"

text \<open>
  The handler of that block, lines 148 to 171. Everything it calls is inside
  \<^verbatim>\<open>try ... except: pass\<close>.
\<close>

definition cleanup_except ::
  "clock \<Rightarrow> host \<Rightarrow> PPPPService \<times> 'a pppp_world_scheme \<Rightarrow> PPPPService \<times> 'a pppp_world_scheme" where
  "cleanup_except clk h sw =
     (let (self, w) = sw;
          self1 = self\<lparr>handlers := [], dumper := None\<rparr>;
          w1 = (case api self1 of
                  None \<Rightarrow> w
                | Some a \<Rightarrow>
                    (let (ok, w') =
                       (case chans a of
                          None \<Rightarrow> (True, w)
                        | Some chs \<Rightarrow>
                            (let (ok, w'') = call h Fallback_iter_chans w in
                             if \<not> ok then (False, w'')
                             else (True, close_chans h Fallback_chan_close chs w'')))
                     in if ok \<and> sock a then snd (call h Fallback_sock_close w') else w'));
          self2 = self1\<lparr>api := None, last_heartbeat := 0, heartbeat_fail_count := 0\<rparr>;
          (t, w2) = time_time clk w1
      in (self2\<lparr>last_cleanup_time := t\<rparr>, w2))"

text \<open>
  \<^verbatim>\<open>cleanup_connection\<close>. Its result has no exception: every call it makes is inside a
  handler for \<^verbatim>\<open>Exception\<close>.
\<close>

definition cleanup_connection ::
  "clock \<Rightarrow> host \<Rightarrow> PPPPService \<times> 'a pppp_world_scheme \<Rightarrow> PPPPService \<times> 'a pppp_world_scheme" where
  "cleanup_connection clk h sw =
     (case api (fst sw) of
        None \<Rightarrow> sw
      | Some a \<Rightarrow>
          (case cleanup_try clk h a sw of
             Inr sw' \<Rightarrow> sw'
           | Inl sw' \<Rightarrow> cleanup_except clk h sw'))"

text \<open>\<^verbatim>\<open>get_retry_interval\<close>\<close>

definition get_retry_interval ::
  "clock \<Rightarrow> PPPPService \<times> 'a pppp_world_scheme \<Rightarrow> nat \<times> PPPPService \<times> 'a pppp_world_scheme" where
  "get_retry_interval clk sw =
     (let (self, w) = sw;
          (t, w1) = time_time clk w;
          self1 = (if t - last_connection_attempt self > real MAX_RETRY_INTERVAL
                   then self\<lparr>retry_count := 0\<rparr> else self);
          self2 = (if retry_count self1 \<ge> MAX_RETRY_COUNT
                   then self1\<lparr>retry_count := 0\<rparr> else self1);
          interval = min (INITIAL_RETRY_DELAY * 2 ^ retry_count self2) MAX_RETRY_INTERVAL
      in (interval, self2, w1))"

text \<open>\<^verbatim>\<open>reset_retry_count\<close>\<close>

definition reset_retry_count ::
  "clock \<Rightarrow> PPPPService \<times> 'a pppp_world_scheme \<Rightarrow> PPPPService \<times> 'a pppp_world_scheme" where
  "reset_retry_count clk sw =
     (let (self, w) = sw;
          (t, w1) = time_time clk w
      in (self\<lparr>retry_count := 0, last_successful_connection := t, heartbeat_fail_count := 0\<rparr>, w1))"

text \<open>The property \<^verbatim>\<open>connected\<close> of the service.\<close>

definition connected_pppp :: "PPPPService \<Rightarrow> bool" where
  "connected_pppp self =
     (case api self of None \<Rightarrow> False | Some a \<Rightarrow> \<not> stopped a \<and> state a = Connected)"

text \<open>
  \<^verbatim>\<open>api_command(commandType, **kwargs)\<close>: the JSON command goes out through
  \<^verbatim>\<open>send_xzyh\<close>, noted by its command type.
\<close>

definition api_command ::
  "host \<Rightarrow> string \<Rightarrow> PPPPService \<Rightarrow> 'a pppp_world_scheme \<Rightarrow> exn option \<times> 'a pppp_world_scheme" where
  "api_command h commandType self w =
     (if api self = None \<or> \<not> connected_pppp self then (Some (ConnectionError ''No pppp connection''), w)
      else
        let (ok, w1) = call h (Send_json commandType) w
        in if ok then (None, w1) else (Some (OtherException ''send_xzyh''), w1))"

text \<open>\<^verbatim>\<open>send_heartbeat\<close>\<close>

definition send_heartbeat ::
  "host \<Rightarrow> PPPPService \<times> 'a pppp_world_scheme \<Rightarrow> bool \<times> PPPPService \<times> 'a pppp_world_scheme" where
  "send_heartbeat h sw =
     (let (self, w) = sw in
      if api self = None \<or> \<not> connected_pppp self then
        (let self1 = (if (case api self of None \<Rightarrow> False | Some a \<Rightarrow> state a = Connected)
                      then self\<lparr>heartbeat_fail_count := heartbeat_fail_count self + 1\<rparr>
                      else self)
         in (False, self1, w))
      else
        (case api_command h ''heartbeat'' self w of
           (None, w1) \<Rightarrow> (True, self\<lparr>heartbeat_fail_count := 0\<rparr>, w1)
         | (Some e, w1) \<Rightarrow>
             (False, self\<lparr>heartbeat_fail_count := heartbeat_fail_count self + 1\<rparr>, w1)))"

text \<open>
  \<^verbatim>\<open>worker_start\<close>. The result is the exception raised, if any, and the state left
  behind.
\<close>

definition worker_start ::
  "clock \<Rightarrow> host \<Rightarrow> PPPPService \<times> 'a pppp_world_scheme
     \<Rightarrow> exn option \<times> PPPPService \<times> 'a pppp_world_scheme" where
  "worker_start clk h sw =
     (if stopping (fst sw) then (None, sw)
      else
        let (self1, w1) = cleanup_connection clk h sw;
            w2 = time_sleep (CLEANUP_WAIT * 2) w1;
            (now, w3) = time_time clk w2;
            (retry_interval, self2, w4) = get_retry_interval clk (self1, w3)
        in if now - last_connection_attempt self2 < real retry_interval
           then (None, self2, time_sleep 1 w4)
           else
             let w5 = w4\<lparr>trace := trace w4 @ [Retry_interval retry_interval]\<rparr>;
                 self3 = self2\<lparr>last_connection_attempt := now,
                               retry_count := retry_count self2 + 1,
                               total_restarts := total_restarts self2 + 1,
                               last_restart_time := Some now\<rparr>
             in case config h of
                  None \<Rightarrow> (Some (ServiceStoppedError ''No config available''), self3, w5)
                | Some printer \<Rightarrow>
                    if ip_addr printer = []
                    then (Some (ServiceStoppedError ''Printer IP address not available''), self3, w5)
                    else
                      (case connect h of
                         Fails_early e \<Rightarrow>
                           (let (self4, w6) = cleanup_connection clk h (self3, w5)
                            in (Some e, self4, w6))
                       | Fails_late e \<Rightarrow>
                           (let self4 = (case pppp_dump h of
                                           None \<Rightarrow> self3
                                         | Some dumpfile \<Rightarrow> self3\<lparr>dumper := Some dumpfile\<rparr>);
                                (self5, w6) = cleanup_connection clk h (self4, w5)
                            in (Some e, self5, w6))
                       | Connects a \<Rightarrow>
                           (let self4 = (case pppp_dump h of
                                           None \<Rightarrow> self3
                                         | Some dumpfile \<Rightarrow> self3\<lparr>dumper := Some dumpfile\<rparr>);
                                self5 = self4\<lparr>api := Some a\<rparr>;
                                (t, w6) = time_time clk w5;
                                self6 = self5\<lparr>last_heartbeat := t\<rparr>;
                                (self7, w7) = reset_retry_count clk (self6, w6)
                            in (None, self7, w7))))"

text \<open>\<^verbatim>\<open>log_instance_count\<close>: of the class, it reads the clock and logs.\<close>

definition log_instance_count :: "clock \<Rightarrow> 'a pppp_world_scheme \<Rightarrow> 'a pppp_world_scheme" where
  "log_instance_count clk w =
     (let (now, w1) = time_time clk w
      in if now - last_instance_log w1 \<ge> INSTANCE_LOG_INTERVAL
         then w1\<lparr>last_instance_log := now\<rparr> else w1)"

text \<open>
  \<^verbatim>\<open>for handler in self.handlers[:]: try: handler((getattr(msg, "chan", None), msg))
  except Exception as e: log.warning(...)\<close>
\<close>

fun deliver ::
  "host \<Rightarrow> handler list \<Rightarrow> int option \<times> message \<Rightarrow> 'a pppp_world_scheme \<Rightarrow> 'a pppp_world_scheme" where
  "deliver h [] d w = w"
| "deliver h (f # fs) d w =
     (let w1 = w\<lparr>trace := trace w @ [Handler_call f (fst d) (snd d)]\<rparr>
      in case handler_raises h f d of
           None \<Rightarrow> deliver h fs d w1
         | Some e \<Rightarrow> deliver h fs d w1)"

text \<open>
  Lines 361 to 373 of \<^verbatim>\<open>worker_run\<close>: receive, process, deliver. The result is the
  exception that leaves the inner \<^verbatim>\<open>try\<close> (a \<^verbatim>\<open>TimeoutError\<close> is passed over there).
\<close>

definition recv_process_deliver ::
  "host \<Rightarrow> real \<Rightarrow> PPPPService \<Rightarrow> 'a pppp_world_scheme \<Rightarrow> exn option \<times> 'a pppp_world_scheme" where
  "recv_process_deliver h timeout self w =
     (let w1 = w\<lparr>trace := trace w @ [Api_recv (min timeout HEARTBEAT_INTERVAL)]\<rparr> in
      case recv h of
        Inl e \<Rightarrow> (if e = TimeoutError then (None, w1) else (Some e, w1))
      | Inr None \<Rightarrow> (None, w1)
      | Inr (Some msg) \<Rightarrow>
          (let w2 = w1\<lparr>trace := trace w1 @ [Api_process msg]\<rparr> in
           case process h msg of
             Some e \<Rightarrow> (if e = TimeoutError then (None, w2) else (Some e, w2))
           | None \<Rightarrow> (None, deliver h (handlers self) (chan msg, msg) w2)))"

text \<open>Lines 388 to 391: raise the restart signal if one is pending.\<close>

definition restart_if_pending ::
  "PPPPService \<times> 'a pppp_world_scheme \<Rightarrow> exn option \<times> PPPPService \<times> 'a pppp_world_scheme" where
  "restart_if_pending sw =
     (let (self, w) = sw in
      if restart_pending self \<and> \<not> stopping self
      then (Some (ServiceRestartSignal ''Service needs restart''), self\<lparr>restart_pending := False\<rparr>, w)
      else (None, self, w))"

text \<open>
  Lines 351 to 359 of \<^verbatim>\<open>worker_run\<close>: send a heartbeat when one is due. The first
  component tells that the heartbeat failed for the third time in a row, on which
  \<^verbatim>\<open>worker_run\<close> cleans up and returns; otherwise \<^verbatim>\<open>_last_heartbeat\<close> is updated.
\<close>

definition heartbeat_step ::
  "clock \<Rightarrow> host \<Rightarrow> PPPPService \<times> 'a pppp_world_scheme
     \<Rightarrow> bool \<times> PPPPService \<times> 'a pppp_world_scheme" where
  "heartbeat_step clk h sw =
     (let (self, w) = sw;
          (now, w1) = time_time clk w
      in if now - last_heartbeat self \<ge> HEARTBEAT_INTERVAL then
           (let (sent, self1, w2) = send_heartbeat h (self, w1)
            in if \<not> sent \<and> heartbeat_fail_count self1 \<ge> HEARTBEAT_FAIL_THRESHOLD
               then (True, self1, w2)
               else (False, self1\<lparr>last_heartbeat := now\<rparr>, w2))
         else (False, self, w1))"

text \<open>\<^verbatim>\<open>worker_run(timeout)\<close>\<close>

definition worker_run ::
  "clock \<Rightarrow> host \<Rightarrow> real \<Rightarrow> PPPPService \<times> 'a pppp_world_scheme
     \<Rightarrow> exn option \<times> PPPPService \<times> 'a pppp_world_scheme" where
  "worker_run clk h timeout sw =
     (let (self, w) = sw in
      if stopping self then (None, self, w)
      else
        let w1 = log_instance_count clk w in
        case api self of
          None \<Rightarrow>
            (let (now, w2) = time_time clk w1 in
             if now - last_cleanup_time self < RECONNECT_DELAY
             then (None, self, time_sleep (1 / 10) w2)
             else (None, self\<lparr>restart_pending := True\<rparr>, w2))
        | Some a \<Rightarrow>
            if stopped a then
              (let (self1, w2) = cleanup_connection clk h (self, w1)
               in (None, self1\<lparr>restart_pending := True\<rparr>, w2))
            else
              (case heartbeat_step clk h (self, w1) of
                 (True, self2, w3) \<Rightarrow>
                   (let (self3, w4) = cleanup_connection clk h (self2, w3)
                    in (None, self3\<lparr>restart_pending := True\<rparr>, w4))
               | (False, self2, w3) \<Rightarrow>
                   (case recv_process_deliver h timeout self2 w3 of
                      (None, w4) \<Rightarrow> restart_if_pending (self2, w4)
                    | (Some e, w4) \<Rightarrow>
                        if e = ConnectionResetError then
                          (let (self3, w5) = cleanup_connection clk h (self2, w4)
                           in (None, self3\<lparr>restart_pending := True\<rparr>, w5))
                        else
                          let self3 = self2\<lparr>heartbeat_fail_count := heartbeat_fail_count self2 + 1\<rparr>
                          in if heartbeat_fail_count self3 \<ge> HEARTBEAT_FAIL_THRESHOLD then
                               (let (self4, w5) = cleanup_connection clk h (self3, w4)
                                in (None, self4\<lparr>restart_pending := True\<rparr>, w5))
                             else restart_if_pending (self3, w4))))"

text \<open>\<^verbatim>\<open>worker_stop\<close>\<close>

definition worker_stop ::
  "clock \<Rightarrow> host \<Rightarrow> PPPPService \<times> 'a pppp_world_scheme \<Rightarrow> PPPPService \<times> 'a pppp_world_scheme" where
  "worker_stop clk h sw =
     (let (self, w) = sw;
          (self1, w1) = cleanup_connection clk h (self\<lparr>stopping := True\<rparr>, w)
      in (self1\<lparr>stopping := False\<rparr>, w1))"

section \<open>Auxiliary predicates\<close>

text \<open>
  A call of \<open>wait\<close> starts a new window when it takes one of the two branches that
  zero \<open>bytes_sent\<close> and set \<open>last_check\<close>: the window has run for a second, or the
  chunk does not fit.
\<close>

definition rolls :: "clock \<Rightarrow> int \<Rightarrow> RateLimiter \<times> 'a world_scheme \<Rightarrow> bool" where
  "rolls clk n rw \<longleftrightarrow>
     clk (ticks (snd rw)) - last_check (fst rw) \<ge> 1
     \<or> real_of_int (bytes_sent (fst rw) + n) > rate_bytes (fst rw)"

text \<open>
  A run of calls \<open>wait(n)\<close> for the chunk sizes of a list, with a ledger of the current
  window: the chunks charged since the window started, each with the clock reading at
  which it was charged.
\<close>

fun charges ::
  "clock \<Rightarrow> int list \<Rightarrow> RateLimiter \<times> 'a world_scheme \<Rightarrow> (real \<times> int) list
     \<Rightarrow> (RateLimiter \<times> 'a world_scheme) \<times> (real \<times> int) list" where
  "charges clk [] rw cur = (rw, cur)"
| "charges clk (n # ns) rw cur =
     charges clk ns (wait clk n rw)
       (if rolls clk n rw then [(last_check (fst (wait clk n rw)), n)]
        else cur @ [(clk (ticks (snd rw)), n)])"


text \<open>What \<open>cleanup_connection\<close> is to leave behind.\<close>

definition cleaned :: "PPPPService \<Rightarrow> bool" where
  "cleaned self \<longleftrightarrow> api self = None \<and> handlers self = [] \<and> dumper self = None
     \<and> last_heartbeat self = 0 \<and> heartbeat_fail_count self = 0"

text \<open>The retry intervals noted in a trace, in order.\<close>

definition retry_delays :: "op list \<Rightarrow> nat list" where
  "retry_delays cs = concat (map (\<lambda>c. case c of Retry_interval d \<Rightarrow> [d] | _ \<Rightarrow> []) cs)"

text \<open>
  A run of \<open>n\<close> calls of \<open>worker_start\<close>, each on the state the one before left: what
  the service runtime (not under src/) does while starting keeps failing.
\<close>

fun attempts ::
  "clock \<Rightarrow> host \<Rightarrow> nat \<Rightarrow> PPPPService \<times> 'a pppp_world_scheme \<Rightarrow> PPPPService \<times> 'a pppp_world_scheme" where
  "attempts clk h 0 sw = sw"
| "attempts clk h (Suc n) sw = attempts clk h n (snd (worker_start clk h sw))"

text \<open>The sequence 2, 4, 8, 16, 30, 2, 4, 8, 16, 30, ... (the first element has index 0).\<close>

definition backoff :: "nat \<Rightarrow> nat" where
  "backoff i = [2, 4, 8, 16, 30] ! (i mod 5)"

text \<open>
  The clock of a run of \<open>n\<close> attempts without early calls and without idle gaps. Call
  number \<open>i\<close> of the run reads the clock twice when no session is present: at tick \<open>t\<close>
  in \<open>worker_start\<close> and at tick \<open>t + 1\<close> in \<open>get_retry_interval\<close>. The first reading
  is at least \<open>backoff i\<close> after the last attempt, so that the call goes on to an attempt;
  the second is at most \<open>MAX_RETRY_INTERVAL\<close> after it.
\<close>

fun on_schedule :: "clock \<Rightarrow> nat \<Rightarrow> real \<Rightarrow> nat \<Rightarrow> nat \<Rightarrow> bool" where
  "on_schedule clk t prev i 0 = True"
| "on_schedule clk t prev i (Suc n) =
     (real (backoff i) \<le> clk t - prev \<and> clk (Suc t) - prev \<le> real MAX_RETRY_INTERVAL
      \<and> on_schedule clk (t + 2) (clk t) (Suc i) n)"

text \<open>
  What holds of the counter and of the ledger of the current window between calls of
  \<open>wait\<close>.
\<close>

definition window_ok :: "RateLimiter \<Rightarrow> (real \<times> int) list \<Rightarrow> bool" where
  "window_ok self cur \<longleftrightarrow>
     bytes_sent self = sum_list (map snd cur)
     \<and> (\<forall>(t, n) \<in> set cur. t - last_check self < 1)
     \<and> real_of_int (sum_list (map snd cur))
         \<le> max (rate_bytes self) (real_of_int (case cur of [] \<Rightarrow> 0 | (t, n) # _ \<Rightarrow> n))"

section \<open>Example environments\<close>

text \<open>
  A session with two channels and a socket, and a host on which sending the Close packet,
  one channel close, the socket shutdown and the dumper close all raise.
\<close>

definition session0 :: session where
  "session0 = \<lparr>state = Connected, stopped = False, sock = True, close_received = False,
     chans = Some [0, 1]\<rparr>"

definition host0 :: host where
  "host0 = \<lparr>fails = (\<lambda>c. c = Send_close \<or> c = Chan_close 0 1 \<or> c = Sock_shutdown \<or> c = Dumper_close),
     windows = False,
     config = Some \<lparr>name = ''M5'', ip_addr = ''192.0.2.10'', p2p_duid = ''ABCDEFGH123456789012''\<rparr>,
     pppp_dump = None,
     connect = Fails_early TimeoutError,
     recv = Inr None,
     process = (\<lambda>_. None),
     handler_raises = (\<lambda>_ _. None)\<rparr>"

definition world0 :: pppp_world where
  "world0 = \<lparr>ticks = 0, sleeps = [], trace = [], last_instance_log = 0\<rparr>"

text \<open>A video frame on channel 1, and a host that delivers it to handlers of which two raise.\<close>

definition msg0 :: message where
  "msg0 = \<lparr>chan = Some 1, is_xzyh = True, payload = []\<rparr>"

definition host1 :: host where
  "host1 = host0\<lparr>recv := Inr (Some msg0),
     handler_raises := (\<lambda>f d. if f = 5 \<or> f = 6 then Some (OtherException ''boom'') else None)\<rparr>"

text \<open>
  A clock for six calls of \<open>worker_start\<close>, two readings each, made 10, 14, 22, 38, 68 and
  70 seconds after time 0: the gaps are 4, 8, 16, 30 and 2 seconds.
\<close>

definition clock0 :: clock where
  "clock0 k = (if k < 2 then 10 else if k < 4 then 14 else if k < 6 then 22
               else if k < 8 then 38 else if k < 10 then 68 else 70)"

section \<open>Properties of the rate limiter\<close>

lemma wait_cases:
  "wait clk n (self, w) =
     (let tp = clk (ticks w) - last_check self in
      if tp \<ge> 1 then
        (self\<lparr>bytes_sent := n, last_check := clk (ticks w)\<rparr>, w\<lparr>ticks := Suc (ticks w)\<rparr>)
      else if real_of_int (bytes_sent self + n) > rate_bytes self then
        (self\<lparr>bytes_sent := n, last_check := clk (Suc (ticks w))\<rparr>,
         w\<lparr>ticks := Suc (Suc (ticks w)), sleeps := sleeps w @ [1 - tp]\<rparr>)
      else (self\<lparr>bytes_sent := bytes_sent self + n\<rparr>, w\<lparr>ticks := Suc (ticks w)\<rparr>))"
  by (simp add: wait_def time_time_def time_sleep_def Let_def)

lemma window_ok_step:
  assumes "window_ok self cur"
  shows "window_ok (fst (wait clk n (self, w)))
     (if rolls clk n (self, w) then [(last_check (fst (wait clk n (self, w))), n)]
      else cur @ [(clk (ticks w), n)])"
proof (cases "rolls clk n (self, w)")
  case True
  then show ?thesis
    by (auto simp: window_ok_def rolls_def wait_cases Let_def)
next
  case False
  then have tp: "clk (ticks w) - last_check self < 1"
    and fit: "real_of_int (bytes_sent self + n) \<le> rate_bytes self"
    by (auto simp: rolls_def)
  have w: "fst (wait clk n (self, w)) = self\<lparr>bytes_sent := bytes_sent self + n\<rparr>"
    using tp fit by (simp add: wait_cases Let_def)
  have "real_of_int (sum_list (map snd (cur @ [(clk (ticks w), n)]))) \<le> rate_bytes self"
    using fit assms by (simp add: window_ok_def)
  then show ?thesis
    using False assms tp by (auto simp: window_ok_def w)
qed

lemma charges_window_ok:
  "window_ok self cur \<Longrightarrow>
   window_ok (fst (fst (charges clk ns (self, w) cur))) (snd (charges clk ns (self, w) cur))"
proof (induction ns arbitrary: self w cur)
  case Nil
  then show ?case by simp
next
  case (Cons n ns)
  obtain self1 w1 where w1: "wait clk n (self, w) = (self1, w1)"
    by (cases "wait clk n (self, w)")
  have "window_ok self1 (if rolls clk n (self, w) then [(last_check self1, n)]
      else cur @ [(clk (ticks w), n)])"
    using window_ok_step [OF Cons.prems, of clk n w] by (simp only: w1 fst_conv)
  from Cons.IH [OF this, of w1] show ?case
    by (simp only: charges.simps w1 fst_conv snd_conv)
qed

lemma charges_rate:
  "rate_bytes (fst (fst (charges clk ns (self, w) cur))) = rate_bytes self"
proof (induction ns arbitrary: self w cur)
  case Nil
  then show ?case by simp
next
  case (Cons n ns)
  obtain self1 w1 where w1: "wait clk n (self, w) = (self1, w1)"
    by (cases "wait clk n (self, w)")
  then have "rate_bytes self1 = rate_bytes self"
    by (auto simp: wait_cases Let_def split: if_splits)
  with Cons.IH [of self1 w1] show ?case
    by (simp add: w1)
qed

lemma charges_nonneg:
  assumes "\<forall>n \<in> set ns. 0 \<le> n" and "\<forall>(t, n) \<in> set cur. 0 \<le> n"
  shows "\<forall>(t, n) \<in> set (snd (charges clk ns rw cur)). 0 \<le> n"
  using assms
proof (induction ns arbitrary: rw cur)
  case Nil
  then show ?case by simp
next
  case (Cons m ns)
  let ?cur = "if rolls clk m rw then [(last_check (fst (wait clk m rw)), m)]
        else cur @ [(clk (ticks (snd rw)), m)]"
  have "\<forall>(t, n) \<in> set ?cur. 0 \<le> n"
    using Cons.prems by auto
  moreover have "\<forall>n \<in> set ns. 0 \<le> n"
    using Cons.prems by simp
  ultimately have "\<forall>(t, n) \<in> set (snd (charges clk ns (wait clk m rw) ?cur)). 0 \<le> n"
    by (rule Cons.IH [rotated])
  then show ?case by (simp only: charges.simps)
qed

text \<open>
  Claim C2 (amended). The per-window byte budget of a limiter created for \<open>R\<close> Mbps is
  \<open>R * 1024 * 1024 / 8 = 131072 R\<close> bytes. A call \<open>wait(n)\<close> made less than one second
  after the window started sleeps exactly when the bytes charged to the window plus \<open>n\<close>
  exceed that budget; it sleeps until the window's end, then starts a new window at the
  next clock reading and charges \<open>n\<close> to it. A call made a second or more after the window
  started starts a new window at once, without sleeping. Otherwise \<open>n\<close> is charged to the
  running window. Hence, in every run of calls from a fresh limiter, the counter is the sum
  of the chunks charged to the current window, every one of them was charged less than a
  second after the window started, and their sum exceeds the budget by at most one chunk
  (the first of the window).
\<close>

theorem rate_limiter_budget:
  assumes "0 < R" and "\<forall>n \<in> set ns. 0 \<le> n"
  shows "rate_bytes (fst (RateLimiter_init clk R w0)) = R * 1024 * 1024 / 8
    \<and> wait clk n (self, w) =
        (if clk (ticks w) - last_check self \<ge> 1 then
           (self\<lparr>bytes_sent := n, last_check := clk (ticks w)\<rparr>, w\<lparr>ticks := Suc (ticks w)\<rparr>)
         else if real_of_int (bytes_sent self + n) > rate_bytes self then
           (self\<lparr>bytes_sent := n, last_check := clk (Suc (ticks w))\<rparr>,
            w\<lparr>ticks := Suc (Suc (ticks w)),
              sleeps := sleeps w @ [last_check self + 1 - clk (ticks w)]\<rparr>)
         else (self\<lparr>bytes_sent := bytes_sent self + n\<rparr>, w\<lparr>ticks := Suc (ticks w)\<rparr>))
    \<and> (case charges clk ns (RateLimiter_init clk R w0) [] of
          ((self', w'), cur) \<Rightarrow>
            rate_bytes self' = R * 1024 * 1024 / 8
            \<and> bytes_sent self' = sum_list (map snd cur)
            \<and> (\<forall>(t, m) \<in> set cur. t - last_check self' < 1)
            \<and> real_of_int (sum_list (map snd cur))
                \<le> R * 1024 * 1024 / 8 + real_of_int (case cur of [] \<Rightarrow> 0 | (t, m) # _ \<Rightarrow> m))"
proof (intro conjI)
  show "rate_bytes (fst (RateLimiter_init clk R w0)) = R * 1024 * 1024 / 8"
    by (simp add: RateLimiter_init_def time_time_def)
next
  have "1 - (clk (ticks w) - last_check self) = last_check self + 1 - clk (ticks w)"
    by simp
  then show "wait clk n (self, w) =
        (if clk (ticks w) - last_check self \<ge> 1 then
           (self\<lparr>bytes_sent := n, last_check := clk (ticks w)\<rparr>, w\<lparr>ticks := Suc (ticks w)\<rparr>)
         else if real_of_int (bytes_sent self + n) > rate_bytes self then
           (self\<lparr>bytes_sent := n, last_check := clk (Suc (ticks w))\<rparr>,
            w\<lparr>ticks := Suc (Suc (ticks w)),
              sleeps := sleeps w @ [last_check self + 1 - clk (ticks w)]\<rparr>)
         else (self\<lparr>bytes_sent := bytes_sent self + n\<rparr>, w\<lparr>ticks := Suc (ticks w)\<rparr>))"
    by (simp only: wait_cases Let_def)
next
  obtain self0 w1 where init: "RateLimiter_init clk R w0 = (self0, w1)"
    by (cases "RateLimiter_init clk R w0")
  then have r0: "rate_bytes self0 = R * 1024 * 1024 / 8" and b0: "bytes_sent self0 = 0"
    by (auto simp: RateLimiter_init_def time_time_def)
  obtain self' w' cur where run: "charges clk ns (self0, w1) [] = ((self', w'), cur)"
    by (metis prod.exhaust)
  have "window_ok self0 []"
    using b0 by (simp add: window_ok_def)
  from charges_window_ok [OF this, of clk ns w1] run
  have ok: "window_ok self' cur"
    by simp
  from charges_rate [of clk ns self0 w1 "[]"] run r0
  have r: "rate_bytes self' = R * 1024 * 1024 / 8"
    by simp
  from charges_nonneg [OF assms(2), of "[]" clk "(self0, w1)"] run
  have nn: "\<forall>(t, m) \<in> set cur. 0 \<le> m"
    by simp
  then have first: "0 \<le> (case cur of [] \<Rightarrow> 0 | (t, m) # _ \<Rightarrow> m)"
    by (cases cur) auto
  have budget: "0 \<le> R * 1024 * 1024 / 8"
    using assms(1) by simp
  from ok have "real_of_int (sum_list (map snd cur))
      \<le> max (rate_bytes self') (real_of_int (case cur of [] \<Rightarrow> 0 | (t, m) # _ \<Rightarrow> m))"
    by (simp add: window_ok_def)
  with first budget r have bound: "real_of_int (sum_list (map snd cur))
      \<le> R * 1024 * 1024 / 8 + real_of_int (case cur of [] \<Rightarrow> 0 | (t, m) # _ \<Rightarrow> m)"
    by linarith
  from ok r bound show "case charges clk ns (RateLimiter_init clk R w0) [] of
          ((self', w'), cur) \<Rightarrow>
            rate_bytes self' = R * 1024 * 1024 / 8
            \<and> bytes_sent self' = sum_list (map snd cur)
            \<and> (\<forall>(t, m) \<in> set cur. t - last_check self' < 1)
            \<and> real_of_int (sum_list (map snd cur))
                \<le> R * 1024 * 1024 / 8 + real_of_int (case cur of [] \<Rightarrow> 0 | (t, m) # _ \<Rightarrow> m)"
    by (simp add: init run window_ok_def)
qed


theorem rate_limiter_budget_witness:
  "rate_bytes (fst (RateLimiter_init (\<lambda>k. if k \<le> 5 then real k / 10 else 1 + real (k - 6) / 10) 1
       \<lparr>ticks = 0, sleeps = []\<rparr>)) = 131072
   \<and> charges (\<lambda>k. if k \<le> 5 then real k / 10 else 1 + real (k - 6) / 10)
        [32768, 32768, 32768, 32768, 32768, 32768]
        (RateLimiter_init (\<lambda>k. if k \<le> 5 then real k / 10 else 1 + real (k - 6) / 10) 1
           \<lparr>ticks = 0, sleeps = []\<rparr>) []
      = ((\<lparr>rate_bytes = 131072, last_check = 1, bytes_sent = 65536\<rparr>,
          \<lparr>ticks = 8, sleeps = [1 / 2]\<rparr>),
         [(1, 32768), (11 / 10, 32768)])
   \<and> real_of_int (32768 + 32768) \<le> 1 * 1024 * 1024 / 8 + real_of_int 32768"
proof -
  let ?clk = "\<lambda>k. if k \<le> 5 then real k / 10 else 1 + real (k - 6) / 10"
  let ?ns = "[32768, 32768, 32768, 32768, 32768, 32768] :: int list"
  have r: "(0::real) < 1"
    by simp
  have n: "\<forall>n \<in> set ?ns. 0 \<le> n"
    by simp
  have run: "charges ?clk ?ns (RateLimiter_init ?clk 1 \<lparr>ticks = 0, sleeps = []\<rparr>) []
      = ((\<lparr>rate_bytes = 131072, last_check = 1, bytes_sent = 65536\<rparr>,
          \<lparr>ticks = 8, sleeps = [1 / 2]\<rparr>),
         [(1, 32768), (11 / 10, 32768)])"
    by (simp add: RateLimiter_init_def time_time_def wait_cases rolls_def Let_def eval_nat_numeral)
  have budget: "rate_bytes (fst (RateLimiter_init ?clk 1 \<lparr>ticks = 0, sleeps = []\<rparr>))
      = 1 * 1024 * 1024 / 8"
    by (rule rate_limiter_budget [OF r n, THEN conjunct1])
  from budget run show ?thesis by simp
qed

theorem rate_limiter_budget_counterexample:
  "rate_bytes (fst (RateLimiter_init (\<lambda>_. 0) 10 \<lparr>ticks = 0, sleeps = []\<rparr>)) = 1310720
   \<and> (1310720 :: real) \<noteq> 10 * 10 ^ 6 / 8
   \<and> real_of_int (1245184 + 32768) > 10 * 10 ^ 6 / 8
   \<and> sleeps (snd (wait (\<lambda>_. 1 / 2) 32768
         (\<lparr>rate_bytes = 1310720, last_check = 0, bytes_sent = 1245184\<rparr>,
          \<lparr>ticks = 1, sleeps = []\<rparr>))) = []
   \<and> real_of_int (bytes_sent (fst (wait (\<lambda>_. 1 / 2) 32768 (wait (\<lambda>_. 1 / 2) 32768
         (\<lparr>rate_bytes = 1310720, last_check = 0, bytes_sent = 1245184\<rparr>,
          \<lparr>ticks = 1, sleeps = []\<rparr>))))) > 10 * 10 ^ 6 / 8 + 32768
   \<and> real_of_int 32768 > (1 / 10) * 10 ^ 6 / 8
   \<and> real_of_int 32768 > rate_bytes (fst (RateLimiter_init (\<lambda>_. 0) (1 / 10) \<lparr>ticks = 0, sleeps = []\<rparr>))
   \<and> sleeps (snd (wait (\<lambda>k. if k = 0 then 0 else 2) 32768
         (RateLimiter_init (\<lambda>k. if k = 0 then 0 else 2) (1 / 10) \<lparr>ticks = 0, sleeps = []\<rparr>))) = []"
  by (simp add: RateLimiter_init_def time_time_def wait_cases)

text \<open>
  Claim C9 (amended). A call \<open>wait(n)\<close> performs at most one sleep; its duration is
  \<open>1 - time_passed\<close>, which is positive, at most one second when the clock reading is not
  earlier than \<open>last_check\<close>, and below one second only when the clock has advanced past
  \<open>last_check\<close>. The call always charges \<open>n\<close>; when \<open>n\<close> alone exceeds the budget the
  window is restarted and holds exactly \<open>n\<close> afterwards.
\<close>

theorem wait_single_sleep:
  "(sleeps (snd (wait clk n (self, w))) = sleeps w
      \<or> sleeps (snd (wait clk n (self, w))) = sleeps w @ [1 - (clk (ticks w) - last_check self)])
   \<and> (sleeps (snd (wait clk n (self, w))) \<noteq> sleeps w \<longrightarrow>
        0 < 1 - (clk (ticks w) - last_check self)
        \<and> (last_check self \<le> clk (ticks w) \<longrightarrow> 1 - (clk (ticks w) - last_check self) \<le> 1)
        \<and> (1 - (clk (ticks w) - last_check self) < 1 \<longleftrightarrow> last_check self < clk (ticks w)))
   \<and> (bytes_sent (fst (wait clk n (self, w))) = n
        \<or> bytes_sent (fst (wait clk n (self, w))) = bytes_sent self + n)
   \<and> (rate_bytes self < real_of_int n \<and> 0 \<le> bytes_sent self \<longrightarrow>
        bytes_sent (fst (wait clk n (self, w))) = n)"
  by (simp add: wait_cases Let_def)

theorem wait_single_sleep_witness:
  "sleeps (snd (wait (\<lambda>k. if k = 0 then 401 / 4 else 101) 32768
        (\<lparr>rate_bytes = 1000, last_check = 100, bytes_sent = 0\<rparr>, \<lparr>ticks = 0, sleeps = []\<rparr>)))
     = [3 / 4]
   \<and> (0::real) < 3 / 4 \<and> (3 / 4 :: real) < 1 \<and> (100 :: real) < 401 / 4
   \<and> (1000 :: real) < real_of_int 32768 \<and> (0::int) \<le> 0
   \<and> bytes_sent (fst (wait (\<lambda>k. if k = 0 then 401 / 4 else 101) 32768
        (\<lparr>rate_bytes = 1000, last_check = 100, bytes_sent = 0\<rparr>, \<lparr>ticks = 0, sleeps = []\<rparr>)))
     = 32768"
  using wait_single_sleep [of "\<lambda>k. if k = 0 then 401 / 4 else 101" 32768
      "\<lparr>rate_bytes = 1000, last_check = 100, bytes_sent = 0\<rparr>" "\<lparr>ticks = 0, sleeps = []\<rparr>"]
  by (simp add: wait_cases)

theorem wait_single_sleep_counterexample:
  "sleeps (snd (wait (\<lambda>_. 100) 32768
        (\<lparr>rate_bytes = 131072, last_check = 100, bytes_sent = 131072\<rparr>,
         \<lparr>ticks = 0, sleeps = []\<rparr>))) = [1]
   \<and> \<not> ((1::real) < 1)"
  by (simp add: wait_cases)

section \<open>Properties of the upload\<close>

lemma ceil_div_step:
  fixes i n step :: nat
  assumes "i < n" "0 < step"
  shows "(n - i + step - 1) div step = Suc ((n - (i + step) + step - 1) div step)"
proof (cases "i + step \<le> n")
  case True
  have a: "n - i + step - 1 = (n - i - 1) + step"
    using assms by arith
  have b: "n - (i + step) + step - 1 = n - i - 1"
    using True assms by arith
  have "(n - i - 1 + step) div step = Suc ((n - i - 1) div step)"
    using assms(2) by simp
  then show ?thesis
    by (simp only: a b)
next
  case False
  have a: "n - (i + step) + step - 1 = step - 1"
    using False by arith
  have b: "(step - 1) div step = 0"
    using assms(2) by (intro div_less) arith
  have "step * 1 \<le> n - i + step - 1" "n - i + step - 1 < step * Suc 1"
    using False assms by arith+
  then have c: "(n - i + step - 1) div step = 1"
    by (rule div_nat_eqI)
  show ?thesis
    unfolding a b c by simp
qed

lemma py_range_eq:
  "0 < step \<Longrightarrow> py_range i n step = map (\<lambda>k. i + k * step) [0..<(n - i + step - 1) div step]"
proof (induction i n step rule: py_range.induct)
  case (1 i n step)
  show ?case
  proof (cases "i < n")
    case True
    have "py_range i n step = i # py_range (i + step) n step"
      using True 1(2) by simp
    also have "\<dots> = i # map (\<lambda>k. i + step + k * step) [0..<(n - (i + step) + step - 1) div step]"
      using 1 True by simp
    also have "\<dots> = map (\<lambda>k. i + k * step) [0..<Suc ((n - (i + step) + step - 1) div step)]"
      by (simp add: upt_conv_Cons map_Suc_upt [symmetric] del: upt_Suc) 
    finally show ?thesis using ceil_div_step [OF True 1(2)] by simp
  next
    case False
    then have "(n - i + step - 1) div step = 0" using 1(2) by simp
    then show ?thesis using False by simp
  qed
qed

lemma wait_emitted: "wait clk n (rl, w) = (rl', w') \<Longrightarrow> emitted w' = emitted w"
  by (auto simp: wait_cases Let_def split: if_splits)

lemma api_send_Inr: "api_send tx e w = Inr w' \<Longrightarrow> w' = w\<lparr>emitted := emitted w @ [e]\<rparr>"
  by (auto simp: api_send_def split: option.splits)

lemma send_chunks_emitted:
  "send_chunks clk tx data ps (rl, w) = Inr (rl', w') \<Longrightarrow>
   emitted w' = emitted w @ map (\<lambda>pos. Aabb_request (take blocksize (drop pos data)) DATA (Some pos)) ps"
proof (induction ps arbitrary: rl w)
  case Nil
  then show ?case by simp
next
  case (Cons pos ps)
  obtain rl1 w1 where w1: "wait clk (int (length (take blocksize (drop pos data)))) (rl, w) = (rl1, w1)"
    by (cases "wait clk (int (length (take blocksize (drop pos data)))) (rl, w)") 
  from Cons.prems w1 obtain w2 where
    w2: "api_send tx (Aabb_request (take blocksize (drop pos data)) DATA (Some pos)) w1 = Inr w2"
    and rest: "send_chunks clk tx data ps (rl1, w2) = Inr (rl', w')"
    by (auto simp: Let_def split: sum.splits)
  from Cons.IH [OF rest] api_send_Inr [OF w2] wait_emitted [OF w1]
  show ?case by simp
qed

lemma wait_reads:
  "wait clk n (rl, w) = (rl', w') \<Longrightarrow> state_reads w' = state_reads w \<and> stopped_reads w' = stopped_reads w"
  by (auto simp: wait_cases Let_def split: if_splits)

lemma send_chunks_reads:
  "send_chunks clk tx data ps (rl, w) = Inr (rl', w') \<Longrightarrow>
   state_reads w' = state_reads w \<and> stopped_reads w' = stopped_reads w"
proof (induction ps arbitrary: rl w)
  case Nil
  then show ?case by simp
next
  case (Cons pos ps)
  obtain rl1 w1 where w1: "wait clk (int (length (take blocksize (drop pos data)))) (rl, w) = (rl1, w1)"
    by (cases "wait clk (int (length (take blocksize (drop pos data)))) (rl, w)")
  from Cons.prems w1 obtain w2 where
    w2: "api_send tx (Aabb_request (take blocksize (drop pos data)) DATA (Some pos)) w1 = Inr w2"
    and rest: "send_chunks clk tx data ps (rl1, w2) = Inr (rl', w')"
    by (auto simp: Let_def split: sum.splits)
  from Cons.IH [OF rest] api_send_Inr [OF w2] wait_reads [OF w1]
  show ?case by simp
qed

lemma concat_chunks:
  "concat (map (\<lambda>k. take b (drop (k * b) xs)) [0..<n]) = take (n * b) xs"
proof (induction n)
  case 0
  then show ?case by simp
next
  case (Suc n)
  have "Suc n * b = n * b + b" by simp
  then have "take (Suc n * b) xs = take (n * b) xs @ take b (drop (n * b) xs)"
    by (simp only: take_add)
  with Suc show ?case by (simp del: mult_Suc)
qed

lemma ceil_covers:
  fixes n b :: nat
  assumes "0 < b"
  shows "n \<le> ((n + b - 1) div b) * b"
proof -
  have "(n + b - 1) mod b < b"
    using assms by simp
  moreover have "(n + b - 1) div b * b + (n + b - 1) mod b = n + b - 1"
    by simp
  ultimately show ?thesis
    using assms by linarith
qed

declare py_range.simps [simp del]

lemma wait_connected_emitted:
  "wait_connected sts sps w = Some (Inr w') \<Longrightarrow> emitted w' = emitted w"
proof (induction sts arbitrary: sps w)
  case Nil
  then show ?case by simp
next
  case (Cons st sts)
  show ?case
  proof (cases "st = Connected")
    case True
    with Cons.prems show ?thesis by auto
  next
    case False
    with Cons.prems obtain sps' where "sps = False # sps'"
      and "wait_connected sts sps' (time_sleep (1 / 10) w) = Some (Inr w')"
      by (auto split: list.splits if_splits)
    from Cons.IH [OF this(2)] show ?thesis by (simp add: time_sleep_def)
  qed
qed

lemma RateLimiter_init_emitted:
  "RateLimiter_init clk r w = (rl, w') \<Longrightarrow> emitted w' = emitted w"
  by (auto simp: RateLimiter_init_def time_time_def)

lemma sum_chunks:
  "sum_list (map (\<lambda>k. length (take 32768 (drop (k * 32768) data)))
      [0..<(length data + 32767) div 32768]) = length data"
proof -
  let ?n = "(length data + 32767) div 32768"
  have "length (concat (map (\<lambda>k. take 32768 (drop (k * 32768) data)) [0..<?n]))
        = length (take (?n * 32768) data)"
    by (simp only: concat_chunks)
  moreover have "length data \<le> ?n * 32768"
    using ceil_covers [of 32768 "length data"] by simp
  ultimately have "length (concat (map (\<lambda>k. take 32768 (drop (k * 32768) data)) [0..<?n]))
        = length data"
    by simp
  then show ?thesis
    by (simp only: length_concat map_map comp_def)
qed

lemma api_send_ok:
  "\<forall>k. tx k = None \<Longrightarrow> api_send tx e w = Inr (w\<lparr>emitted := emitted w @ [e]\<rparr>)"
  by (simp add: api_send_def)

lemma send_chunks_total:
  "\<forall>k. tx k = None \<Longrightarrow> \<exists>rw'. send_chunks clk tx data ps rw = Inr rw'"
proof (induction ps arbitrary: rw)
  case Nil
  then show ?case by simp
next
  case (Cons pos ps)
  obtain rl w where "wait clk (int (length (take blocksize (drop pos data)))) rw = (rl, w)"
    by (cases "wait clk (int (length (take blocksize (drop pos data)))) rw")
  then show ?case
    using Cons.IH [OF Cons.prems] by (simp add: api_send_ok [OF Cons.prems])
qed

lemma wait_connected_seen:
  "Connected \<notin> set pre \<Longrightarrow>
   wait_connected (pre @ Connected # rest) (replicate (length pre) False @ sps) w
     = Some (Inr (w\<lparr>sleeps := sleeps w @ replicate (length pre) (1 / 10),
                      state_reads := rest, stopped_reads := sps\<rparr>))"
proof (induction pre arbitrary: w)
  case Nil
  then show ?case by simp
next
  case (Cons st pre)
  then have "st \<noteq> Connected" and "Connected \<notin> set pre"
    by auto
  with Cons.IH [of "time_sleep (1 / 10) w"] show ?case
    by (simp add: time_sleep_def)
qed

text \<open>
  Claim C1. Whenever \<open>send_file\<close> completes on data of length \<open>N\<close>, what it has
  emitted is, in this order: the SEND\_FILE command with the transfer id, one BEGIN frame
  whose payload is the serialisation of \<open>fui\<close> followed by one zero byte, one DATA frame
  per \<open>k < \<lceil>N / 32768\<rceil>\<close> with payload \<open>data[32768 k : 32768 (k + 1)]\<close> at offset
  \<open>32768 k\<close>, and one END frame with empty payload; the DATA payload sizes sum to \<open>N\<close>.
  It does complete when the session, read once for the log, is then seen Connected after
  any number of polls that found it neither Connected nor stopped, and no send raises.
\<close>

theorem send_file_frames:
  "(send_file clk tx uuid4 fui_bytes data rate w = Some (Inr w') \<longrightarrow>
      emitted w' = emitted w
        @ [Send_xzyh (encode (take 16 uuid4)) P2P_SEND_FILE,
           Aabb_request (fui_bytes @ [0]) BEGIN None]
        @ map (\<lambda>k. Aabb_request (take 32768 (drop (k * 32768) data)) DATA (Some (k * 32768)))
            [0..<(length data + 32767) div 32768]
        @ [Aabb_request [] END None]
      \<and> sum_list (map (\<lambda>k. length (take 32768 (drop (k * 32768) data)))
            [0..<(length data + 32767) div 32768]) = length data)
   \<and> (state_reads w = logged # pre @ Connected # rest \<and> Connected \<notin> set pre
        \<and> stopped_reads w = replicate (length pre) False @ sps
        \<and> (\<forall>k. tx k = None)
      \<longrightarrow> (\<exists>w2. send_file clk tx uuid4 fui_bytes data rate w = Some (Inr w2)
              \<and> state_reads w2 = rest \<and> stopped_reads w2 = sps))"
proof (intro conjI impI)
  assume run: "send_file clk tx uuid4 fui_bytes data rate w = Some (Inr w')"
  from run obtain st0 sts where sr: "state_reads w = st0 # sts"
    by (auto simp: send_file_def split: list.splits)
  from run sr obtain w1 where w1: "wait_connected sts (stopped_reads w) w = Some (Inr w1)"
    by (auto simp: send_file_def split: option.splits sum.splits)
  obtain rl w2 where w2: "RateLimiter_init clk rate w1 = (rl, w2)"
    by (cases "RateLimiter_init clk rate w1")
  from run sr w1 w2 obtain w3 where
    w3: "api_send tx (Send_xzyh (encode (take 16 uuid4)) P2P_SEND_FILE) w2 = Inr w3"
    by (auto simp: send_file_def Let_def split: sum.splits)
  from run sr w1 w2 w3 obtain w4 where
    w4: "api_send tx (Aabb_request (fui_bytes @ [0]) BEGIN None) w3 = Inr w4"
    by (auto simp: send_file_def Let_def split: sum.splits)
  from run sr w1 w2 w3 w4 obtain rl' w5 where
    w5: "send_chunks clk tx data (py_range 0 (length data) blocksize) (rl, w4) = Inr (rl', w5)"
    by (auto simp: send_file_def Let_def split: sum.splits)
  from run sr w1 w2 w3 w4 w5 have
    w6: "api_send tx (Aabb_request [] END None) w5 = Inr w'"
    by (auto simp: send_file_def Let_def split: sum.splits)
  have pos: "py_range 0 (length data) 32768
     = map (\<lambda>k. k * 32768) [0..<(length data + 32767) div 32768]"
    by (simp add: py_range_eq add.commute)
  have "emitted w' = emitted w5 @ [Aabb_request [] END None]"
    using api_send_Inr [OF w6] by simp
  also have "emitted w5 = emitted w4
      @ map (\<lambda>pos. Aabb_request (take blocksize (drop pos data)) DATA (Some pos))
          (py_range 0 (length data) blocksize)"
    by (rule send_chunks_emitted [OF w5])
  also have "emitted w4 = emitted w3 @ [Aabb_request (fui_bytes @ [0]) BEGIN None]"
    using api_send_Inr [OF w4] by simp
  also have "emitted w3 = emitted w2 @ [Send_xzyh (encode (take 16 uuid4)) P2P_SEND_FILE]"
    using api_send_Inr [OF w3] by simp
  also have "emitted w2 = emitted w"
    using RateLimiter_init_emitted [OF w2] wait_connected_emitted [OF w1] by simp
  finally show "emitted w' = emitted w
        @ [Send_xzyh (encode (take 16 uuid4)) P2P_SEND_FILE,
           Aabb_request (fui_bytes @ [0]) BEGIN None]
        @ map (\<lambda>k. Aabb_request (take 32768 (drop (k * 32768) data)) DATA (Some (k * 32768)))
            [0..<(length data + 32767) div 32768]
        @ [Aabb_request [] END None]"
    by (simp add: pos comp_def blocksize_def)
next
  assume "send_file clk tx uuid4 fui_bytes data rate w = Some (Inr w')"
  show "sum_list (map (\<lambda>k. length (take 32768 (drop (k * 32768) data)))
            [0..<(length data + 32767) div 32768]) = length data"
    by (rule sum_chunks)
next
  assume a: "state_reads w = logged # pre @ Connected # rest \<and> Connected \<notin> set pre
        \<and> stopped_reads w = replicate (length pre) False @ sps
        \<and> (\<forall>k. tx k = None)"
  then have sr: "state_reads w = logged # pre @ Connected # rest"
    and sp: "stopped_reads w = replicate (length pre) False @ sps"
    and np: "Connected \<notin> set pre" and tx: "\<forall>k. tx k = None"
    by blast+
  define w1 where "w1 = w\<lparr>sleeps := sleeps w @ replicate (length pre) (1 / 10),
      state_reads := rest, stopped_reads := sps\<rparr>"
  have w1: "wait_connected (pre @ Connected # rest) (stopped_reads w) w = Some (Inr w1)"
    unfolding sp w1_def by (rule wait_connected_seen [OF np])
  obtain rl w2 where w2: "RateLimiter_init clk rate w1 = (rl, w2)"
    by (cases "RateLimiter_init clk rate w1")
  have rest2: "state_reads w2 = rest \<and> stopped_reads w2 = sps"
    using w2 by (auto simp: RateLimiter_init_def time_time_def w1_def)
  define w4 where "w4 = w2\<lparr>emitted := emitted w2 @
      [Send_xzyh (encode (take 16 uuid4)) P2P_SEND_FILE, Aabb_request (fui_bytes @ [0]) BEGIN None]\<rparr>"
  from send_chunks_total [OF tx] obtain rw5 where
    "send_chunks clk tx data (py_range 0 (length data) blocksize) (rl, w4) = Inr rw5"
    by blast
  then obtain rl5 w5 where
    w5: "send_chunks clk tx data (py_range 0 (length data) blocksize) (rl, w4) = Inr (rl5, w5)"
    by (cases rw5) simp
  have rest5: "state_reads w5 = state_reads w4 \<and> stopped_reads w5 = stopped_reads w4"
    by (rule send_chunks_reads [OF w5])
  have "send_file clk tx uuid4 fui_bytes data rate w
      = Some (Inr (w5\<lparr>emitted := emitted w5 @ [Aabb_request [] END None]\<rparr>))"
    using w5 by (simp add: send_file_def sr w1 w2 Let_def api_send_def tx w4_def)
  moreover have "state_reads (w5\<lparr>emitted := emitted w5 @ [Aabb_request [] END None]\<rparr>) = rest
      \<and> stopped_reads (w5\<lparr>emitted := emitted w5 @ [Aabb_request [] END None]\<rparr>) = sps"
    using rest5 rest2 by (simp add: w4_def)
  ultimately show "\<exists>w2. send_file clk tx uuid4 fui_bytes data rate w = Some (Inr w2)
              \<and> state_reads w2 = rest \<and> stopped_reads w2 = sps"
    by blast
qed

theorem send_file_frames_witness:
  "send_file (\<lambda>_. 0) (\<lambda>_. None) ''0123456789abcdefXYZ'' [1, 2] (replicate 40000 7) 10
      \<lparr>ticks = 0, sleeps = [], state_reads = [Idle, Connecting, Connected, Closing],
       stopped_reads = [False, True], emitted = []\<rparr>
    = Some (Inr \<lparr>ticks = 3, sleeps = [1 / 10], state_reads = [Closing], stopped_reads = [True],
         emitted = [Send_xzyh (encode (take 16 ''0123456789abcdefXYZ'')) P2P_SEND_FILE,
                    Aabb_request [1, 2, 0] BEGIN None,
                    Aabb_request (replicate 32768 7) DATA (Some 0),
                    Aabb_request (replicate 7232 7) DATA (Some 32768),
                    Aabb_request [] END None]\<rparr>)
   \<and> sum_list (map (\<lambda>k. length (take 32768 (drop (k * 32768) (replicate 40000 (7 :: byte)))))
         [0..<(length (replicate 40000 (7 :: byte)) + 32767) div 32768]) = 40000"
proof -
  let ?w = "\<lparr>ticks = 0, sleeps = [], state_reads = [Idle, Connecting, Connected, Closing],
       stopped_reads = [False, True], emitted = []\<rparr> :: api_world"
  let ?W = "\<lparr>ticks = 3, sleeps = [1 / 10], state_reads = [Closing], stopped_reads = [True],
         emitted = [Send_xzyh (encode (take 16 ''0123456789abcdefXYZ'')) P2P_SEND_FILE,
                    Aabb_request [1, 2, 0] BEGIN None,
                    Aabb_request (replicate 32768 7) DATA (Some 0),
                    Aabb_request (replicate 7232 7) DATA (Some 32768),
                    Aabb_request [] END None]\<rparr> :: api_world"
  have hyp: "state_reads ?w = Idle # [Connecting] @ Connected # [Closing] \<and> Connected \<notin> set [Connecting]
        \<and> stopped_reads ?w = replicate (length [Connecting]) False @ [True]
        \<and> (\<forall>k. (\<lambda>_. None :: exn option) k = None)"
    by simp
  have run: "send_file (\<lambda>_. 0) (\<lambda>_. None) ''0123456789abcdefXYZ'' [1, 2] (replicate 40000 7) 10 ?w
      = Some (Inr ?W)"
    by (simp add: send_file_def Let_def api_send_def py_range.simps blocksize_def
        RateLimiter_init_def time_time_def time_sleep_def wait_cases numeral_3_eq_3)
  from send_file_frames [of "\<lambda>_. 0" "\<lambda>_. None" "''0123456789abcdefXYZ''" "[1, 2]"
      "replicate 40000 7" 10 ?w ?W Idle "[Connecting]" "[Closing]" "[True]"] run hyp
  have total: "sum_list (map (\<lambda>k. length (take 32768 (drop (k * 32768) (replicate 40000 (7 :: byte)))))
         [0..<(length (replicate 40000 (7 :: byte)) + 32767) div 32768]) = 40000"
    by simp
  from run total show ?thesis by simp
qed

section \<open>Properties of the PPPP service: cleanup\<close>

lemma cleanup_drop_Inr:
  "cleanup_drop clk h sw = Inr (self', w') \<Longrightarrow> cleaned self'"
  by (cases sw) (auto simp: cleanup_drop_def cleaned_def Let_def split: prod.splits if_splits)

lemma cleanup_except_cleaned: "cleaned (fst (cleanup_except clk h sw))"
  by (cases sw) (simp add: cleanup_except_def cleaned_def Let_def split: prod.splits)

lemma cleanup_connection_cleaned:
  "api (fst sw) \<noteq> None \<Longrightarrow> cleaned (fst (cleanup_connection clk h sw))"
  by (auto simp: cleanup_connection_def cleanup_try_def cleanup_except_cleaned 
      dest: cleanup_drop_Inr split: sum.splits prod.splits)

lemma cleanup_connection_absent:
  "api (fst sw) = None \<Longrightarrow> cleanup_connection clk h sw = sw"
  by (simp add: cleanup_connection_def)

lemma cleanup_connection_idem:
  "cleanup_connection clk h (cleanup_connection clk h sw) = cleanup_connection clk h sw"
proof (cases "api (fst sw)")
  case None
  then show ?thesis by (simp add: cleanup_connection_absent)
next
  case (Some a)
  then have "cleaned (fst (cleanup_connection clk h sw))"
    by (simp add: cleanup_connection_cleaned)
  then show ?thesis
    by (simp add: cleanup_connection_absent cleaned_def)
qed


lemma trace_call: "trace (snd (call h c w)) = trace w @ [c]"
  by (simp add: call_def)

lemma close_parts_prefix: "prefix (trace w) (trace (close_parts h mk js w))"
proof (induction js arbitrary: w)
  case Nil
  then show ?case by simp
next
  case (Cons j js)
  have "prefix (trace w) (trace w @ [mk j])" by simp
  moreover have "prefix (trace w @ [mk j]) (trace (close_parts h mk js (w\<lparr>trace := trace w @ [mk j]\<rparr>)))"
    using Cons.IH [of "w\<lparr>trace := trace w @ [mk j]\<rparr>"] by simp
  ultimately show ?case
    by (auto simp: call_def Let_def dest: append_prefixD)
qed

lemma close_chans_prefix: "prefix (trace w) (trace (close_chans h mk chs w))"
proof (induction chs arbitrary: w)
  case Nil
  then show ?case by simp
next
  case (Cons c chs)
  show ?case
    using close_parts_prefix [of w h "mk c" "[0, 1, 2, 3]"]
      Cons.IH [of "close_parts h (mk c) [0, 1, 2, 3] w"]
    by (simp del: close_parts.simps)
qed

lemma cleanup_close_stop_prefix:
  "cleanup_close_stop h a w = Inr w' \<Longrightarrow> prefix (trace w) (trace w')"
  by (auto simp: cleanup_close_stop_def call_def time_sleep_def Let_def split: if_splits)

lemma cleanup_chans_prefix:
  "cleanup_chans h a w = Inr w' \<Longrightarrow> prefix (trace w) (trace w')"
  using close_chans_prefix [of "w\<lparr>trace := trace w @ [Iter_chans]\<rparr>" h Chan_close]
  by (auto simp: cleanup_chans_def call_def Let_def split: option.splits if_splits
      dest: append_prefixD)

lemma cleanup_sock_prefix: "prefix (trace w) (trace (cleanup_sock h a w))"
  by (auto simp: cleanup_sock_def call_def Let_def)

lemma cleanup_except_prefix: "prefix (trace w) (trace (snd (cleanup_except clk h (self, w))))"
  using close_chans_prefix [of "w\<lparr>trace := trace w @ [Fallback_iter_chans]\<rparr>" h Fallback_chan_close]
  by (auto simp: cleanup_except_def call_def time_time_def Let_def
      split: option.splits prod.splits if_splits dest: append_prefixD
      intro: prefix_order.trans [OF _ prefixI [of _ _ "[Fallback_sock_close]"]])


lemma cleanup_close_stop_ok:
  "\<not> fails h Get_state \<Longrightarrow> \<not> fails h Is_stopped \<Longrightarrow> \<exists>w'. cleanup_close_stop h a w = Inr w'"
  by (simp add: cleanup_close_stop_def call_def Let_def)

lemma cleanup_chans_ok:
  "\<not> fails h Iter_chans \<Longrightarrow> \<exists>w'. cleanup_chans h a w = Inr w'"
  by (simp add: cleanup_chans_def call_def Let_def split: option.splits)

lemma cleanup_drop_trace:
  assumes "api self = Some a" "dumper self = Some d"
  shows "trace (snd (case cleanup_drop clk h (self, w) of Inl sw \<Rightarrow> sw | Inr sw \<Rightarrow> sw))
     = trace w @ [Dumper_close, Get_state_after]"
  using assms
  by (simp add: cleanup_drop_def call_def time_sleep_def time_time_def Let_def)

lemma cleanup_dumper_closed:
  assumes a: "api self = Some a" and d: "dumper self = Some d"
    and ok: "\<not> fails h Get_state" "\<not> fails h Is_stopped" "\<not> fails h Iter_chans"
  shows "Dumper_close \<in> set (drop (length (trace w)) (trace (snd (cleanup_connection clk h (self, w)))))"
proof -
  from cleanup_close_stop_ok [OF ok(1,2)] obtain w1 where w1: "cleanup_close_stop h a w = Inr w1"
    by blast
  from cleanup_chans_ok [OF ok(3)] obtain w2 where w2: "cleanup_chans h a w1 = Inr w2"
    by blast
  define w3 where "w3 = cleanup_sock h a w2"
  have "prefix (trace w) (trace w3)"
    using cleanup_close_stop_prefix [OF w1] cleanup_chans_prefix [OF w2]
      cleanup_sock_prefix [of w2 h a]
    unfolding w3_def by (meson prefix_order.trans)
  then obtain xs where xs: "trace w3 = trace w @ xs"
    by (auto simp: prefix_def)
  have run: "cleanup_connection clk h (self, w) =
      (case cleanup_drop clk h (self, w3) of Inr sw' \<Rightarrow> sw' | Inl sw' \<Rightarrow> cleanup_except clk h sw')"
    by (simp add: cleanup_connection_def cleanup_try_def a w1 w2 w3_def)
  have "prefix (trace w3 @ [Dumper_close, Get_state_after])
      (trace (snd (cleanup_connection clk h (self, w))))"
  proof (cases "cleanup_drop clk h (self, w3)")
    case (Inl sw')
    obtain s' w' where sw': "sw' = (s', w')" by (cases sw')
    from cleanup_drop_trace [OF a d, of clk h w3] Inl sw'
    have "trace w' = trace w3 @ [Dumper_close, Get_state_after]" by simp
    with cleanup_except_prefix [of w' clk h s'] show ?thesis
      by (simp add: run Inl sw')
  next
    case (Inr sw')
    with cleanup_drop_trace [OF a d, of clk h w3] show ?thesis
      by (simp add: run)
  qed
  then obtain ys where "trace (snd (cleanup_connection clk h (self, w)))
      = trace w @ xs @ [Dumper_close, Get_state_after] @ ys"
    by (auto simp: prefix_def xs)
  then show ?thesis by simp
qed

lemma cleanup_drop_frame:
  "cleanup_drop clk h (self, w) = R \<Longrightarrow> (s', w') = (case R of Inl sw \<Rightarrow> sw | Inr sw \<Rightarrow> sw) \<Longrightarrow>
   retry_count s' = retry_count self \<and> last_connection_attempt s' = last_connection_attempt self
   \<and> last_successful_connection s' = last_successful_connection self
   \<and> total_restarts s' = total_restarts self \<and> last_restart_time s' = last_restart_time self
   \<and> stopping s' = stopping self \<and> restart_pending s' = restart_pending self"
  by (auto simp: cleanup_drop_def Let_def split: prod.splits if_splits)

lemma cleanup_except_frame:
  "cleanup_except clk h (self, w) = (s', w') \<Longrightarrow>
   retry_count s' = retry_count self \<and> last_connection_attempt s' = last_connection_attempt self
   \<and> last_successful_connection s' = last_successful_connection self
   \<and> total_restarts s' = total_restarts self \<and> last_restart_time s' = last_restart_time self
   \<and> stopping s' = stopping self \<and> restart_pending s' = restart_pending self"
  by (auto simp: cleanup_except_def Let_def split: prod.splits)

lemma cleanup_connection_frame:
  assumes "cleanup_connection clk h (self, w) = (s', w')"
  shows "retry_count s' = retry_count self \<and> last_connection_attempt s' = last_connection_attempt self
   \<and> last_successful_connection s' = last_successful_connection self
   \<and> total_restarts s' = total_restarts self \<and> last_restart_time s' = last_restart_time self
   \<and> stopping s' = stopping self \<and> restart_pending s' = restart_pending self"
proof (cases "api self")
  case None
  with assms show ?thesis by (simp add: cleanup_connection_def)
next
  case (Some a)
  show ?thesis
  proof (cases "cleanup_try clk h a (self, w)")
    case (Inr sw)
    with assms Some have sw: "sw = (s', w')" by (simp add: cleanup_connection_def)
    from Inr obtain w3 where "cleanup_drop clk h (self, w3) = Inr (s', w')"
      by (auto simp: cleanup_try_def sw split: sum.splits)
    from cleanup_drop_frame [OF this, of s' w'] show ?thesis by simp
  next
    case (Inl sw)
    obtain s1 w1 where sw: "sw = (s1, w1)" by (cases sw)
    from assms Some Inl sw have ex: "cleanup_except clk h (s1, w1) = (s', w')"
      by (simp add: cleanup_connection_def)
    from Inl sw have "s1 = self \<or> (\<exists>w3. cleanup_drop clk h (self, w3) = Inl (s1, w1))"
      by (auto simp: cleanup_try_def split: sum.splits)
    then have "retry_count s1 = retry_count self \<and> last_connection_attempt s1 = last_connection_attempt self
       \<and> last_successful_connection s1 = last_successful_connection self
       \<and> total_restarts s1 = total_restarts self \<and> last_restart_time s1 = last_restart_time self
       \<and> stopping s1 = stopping self \<and> restart_pending s1 = restart_pending self"
      using cleanup_drop_frame [of clk h self _ _ s1 w1] by fastforce
    with cleanup_except_frame [OF ex] show ?thesis by simp
  qed
qed


text \<open>
  What \<open>cleanup_connection\<close> does, for every pattern of failing calls. With a session
  present it leaves the session reference \<open>None\<close>, the handler list empty, the dumper
  dropped and the heartbeat state reset, and the dumper's \<open>close()\<close> is called when no
  call outside the inner handlers raises before. Without a session the guard of its first
  line skips everything. A second call changes nothing.
\<close>

lemma cleanup_connection_post:
  "(api self \<noteq> None \<longrightarrow>
      api (fst (cleanup_connection clk h (self, w))) = None
      \<and> handlers (fst (cleanup_connection clk h (self, w))) = []
      \<and> dumper (fst (cleanup_connection clk h (self, w))) = None
      \<and> last_heartbeat (fst (cleanup_connection clk h (self, w))) = 0
      \<and> heartbeat_fail_count (fst (cleanup_connection clk h (self, w))) = 0)
   \<and> (api self \<noteq> None \<and> dumper self \<noteq> None
        \<and> \<not> fails h Get_state \<and> \<not> fails h Is_stopped \<and> \<not> fails h Iter_chans \<longrightarrow>
      Dumper_close \<in> set (drop (length (trace w))
        (trace (snd (cleanup_connection clk h (self, w))))))
   \<and> (api self = None \<longrightarrow> cleanup_connection clk h (self, w) = (self, w))
   \<and> cleanup_connection clk h (cleanup_connection clk h (self, w))
       = cleanup_connection clk h (self, w)"
proof (intro conjI impI)
  assume "api self \<noteq> None"
  then have c: "cleaned (fst (cleanup_connection clk h (self, w)))"
    by (simp add: cleanup_connection_cleaned)
  from c show "api (fst (cleanup_connection clk h (self, w))) = None"
    by (simp add: cleaned_def)
  from c show "handlers (fst (cleanup_connection clk h (self, w))) = []"
    by (simp add: cleaned_def)
  from c show "dumper (fst (cleanup_connection clk h (self, w))) = None"
    by (simp add: cleaned_def)
  from c show "last_heartbeat (fst (cleanup_connection clk h (self, w))) = 0"
    by (simp add: cleaned_def)
  from c show "heartbeat_fail_count (fst (cleanup_connection clk h (self, w))) = 0"
    by (simp add: cleaned_def)
next
  assume "api self \<noteq> None \<and> dumper self \<noteq> None
        \<and> \<not> fails h Get_state \<and> \<not> fails h Is_stopped \<and> \<not> fails h Iter_chans"
  then show "Dumper_close \<in> set (drop (length (trace w))
        (trace (snd (cleanup_connection clk h (self, w)))))"
    using cleanup_dumper_closed [of self _ _ h w clk] by auto
next
  assume "api self = None"
  then show "cleanup_connection clk h (self, w) = (self, w)"
    by (simp add: cleanup_connection_absent)
next
  show "cleanup_connection clk h (cleanup_connection clk h (self, w))
       = cleanup_connection clk h (self, w)"
    by (rule cleanup_connection_idem)
qed

text \<open>
  Claim C4. The claim asks for the cleaned state after \<open>cleanup_connection\<close> from every
  starting state, session present or absent. The code misses the absent case: the guard
  \<^verbatim>\<open>if self._api:\<close> skips the whole body, so a service without a session keeps its
  handlers, its open dumper and its heartbeat count, and nothing is closed. This is the
  state in which \<open>worker_start\<close> calls it after a failed connection attempt
  (\<^verbatim>\<open>self._api\<close> is assigned only on success): the dump writer opened for the attempt
  is neither closed nor dropped.
\<close>

theorem cleanup_connection_skipped_without_session:
  "cleanup_connection (\<lambda>_. 7) host0
      (PPPPService_init\<lparr>handlers := [1], dumper := Some ''pppp.log'', heartbeat_fail_count := 2,
         last_heartbeat := 50\<rparr>, world0)
     = (PPPPService_init\<lparr>handlers := [1], dumper := Some ''pppp.log'', heartbeat_fail_count := 2,
         last_heartbeat := 50\<rparr>, world0)
   \<and> fst (worker_start (\<lambda>_. 100) (host0\<lparr>pppp_dump := Some ''pppp.log'',
          connect := Fails_late TimeoutError\<rparr>) (PPPPService_init\<lparr>handlers := [1]\<rparr>, world0))
     = Some TimeoutError
   \<and> dumper (fst (snd (worker_start (\<lambda>_. 100) (host0\<lparr>pppp_dump := Some ''pppp.log'',
          connect := Fails_late TimeoutError\<rparr>) (PPPPService_init\<lparr>handlers := [1]\<rparr>, world0))))
     = Some ''pppp.log''
   \<and> handlers (fst (snd (worker_start (\<lambda>_. 100) (host0\<lparr>pppp_dump := Some ''pppp.log'',
          connect := Fails_late TimeoutError\<rparr>) (PPPPService_init\<lparr>handlers := [1]\<rparr>, world0))))
     = [1]
   \<and> trace (snd (snd (worker_start (\<lambda>_. 100) (host0\<lparr>pppp_dump := Some ''pppp.log'',
          connect := Fails_late TimeoutError\<rparr>) (PPPPService_init\<lparr>handlers := [1]\<rparr>, world0))))
     = [Retry_interval 2]"
  by (simp add: worker_start_def cleanup_connection_def get_retry_interval_def time_time_def
      time_sleep_def PPPPService_init_def host0_def world0_def Let_def CLEANUP_WAIT_def
      MAX_RETRY_INTERVAL_def MAX_RETRY_COUNT_def INITIAL_RETRY_DELAY_def)

section \<open>Properties of the PPPP service: the run loop\<close>

lemma send_heartbeat_frame:
  "send_heartbeat h (self, w) = (sent, s', w') \<Longrightarrow>
   stopping s' = stopping self \<and> restart_pending s' = restart_pending self
   \<and> api s' = api self \<and> handlers s' = handlers self"
  by (auto simp: send_heartbeat_def Let_def split: if_splits prod.splits option.splits)

lemma heartbeat_step_frame:
  "heartbeat_step clk h (self, w) = (lost, s', w') \<Longrightarrow>
   stopping s' = stopping self \<and> restart_pending s' = restart_pending self
   \<and> api s' = api self \<and> handlers s' = handlers self"
  by (auto simp: heartbeat_step_def Let_def time_time_def split: if_splits prod.splits
      dest!: send_heartbeat_frame)

lemma restart_if_pending_cases:
  "restart_if_pending (self, w) =
     (if restart_pending self \<and> \<not> stopping self
      then (Some (ServiceRestartSignal ''Service needs restart''), self\<lparr>restart_pending := False\<rparr>, w)
      else (None, self, w))"
  by (simp add: restart_if_pending_def)

lemma worker_run_raise:
  assumes "worker_run clk h timeout (self, w) = (Some e, s', w')"
  shows "\<not> stopping self \<and> restart_pending self \<and> \<not> restart_pending s'
     \<and> e = ServiceRestartSignal ''Service needs restart''"
proof -
  from assms have ns: "\<not> stopping self"
    by (auto simp: worker_run_def)
  from assms ns obtain a where a: "api self = Some a" "\<not> stopped a"
    by (auto simp: worker_run_def Let_def split: option.splits prod.splits if_splits)
  obtain lost s2 w3 where hb: "heartbeat_step clk h (self, log_instance_count clk w) = (lost, s2, w3)"
    by (metis prod_cases3)
  from assms ns a hb have nl: "\<not> lost"
    by (auto simp: worker_run_def Let_def split: prod.splits)
  note fr = heartbeat_step_frame [OF hb]
  obtain r w4 where rp: "recv_process_deliver h timeout s2 w3 = (r, w4)"
    by (cases "recv_process_deliver h timeout s2 w3")
  from assms ns a hb nl rp
  have "restart_if_pending (s2, w4) = (Some e, s', w')
     \<or> restart_if_pending (s2\<lparr>heartbeat_fail_count := heartbeat_fail_count s2 + 1\<rparr>, w4) = (Some e, s', w')"
    by (auto simp: worker_run_def Let_def split: prod.splits option.splits if_splits)
  then show ?thesis
    using fr ns by (auto simp: restart_if_pending_cases split: if_splits)
qed


text \<open>
  \<open>worker_run\<close> raises nothing but the restart signal, and only when the stopping flag
  is off and a restart was pending at entry; the state it leaves at the raise has
  \<open>restart_pending\<close> reset. When the stopping flag is on it returns at once: neither the
  service nor the world (clock, connection, trace) is touched.
\<close>

lemma worker_run_restart_signal:
  "(fst (worker_run clk h timeout (self, w)) \<noteq> None \<longrightarrow>
       \<not> stopping self \<and> restart_pending self
       \<and> fst (worker_run clk h timeout (self, w))
           = Some (ServiceRestartSignal ''Service needs restart'')
       \<and> \<not> restart_pending (fst (snd (worker_run clk h timeout (self, w)))))
   \<and> (stopping self \<longrightarrow> worker_run clk h timeout (self, w) = (None, self, w))"
proof (intro conjI impI)
  assume "fst (worker_run clk h timeout (self, w)) \<noteq> None"
  then obtain e s' w' where run: "worker_run clk h timeout (self, w) = (Some e, s', w')"
    by (metis fst_conv option.exhaust prod_cases3)
  from worker_run_raise [OF run] run
  show "\<not> stopping self" "restart_pending self"
    "fst (worker_run clk h timeout (self, w)) = Some (ServiceRestartSignal ''Service needs restart'')"
    "\<not> restart_pending (fst (snd (worker_run clk h timeout (self, w))))"
    by simp_all
next
  assume "stopping self"
  then show "worker_run clk h timeout (self, w) = (None, self, w)"
    by (simp add: worker_run_def)
qed

lemmas worker_run_eval =
  worker_run_def log_instance_count_def heartbeat_step_def recv_process_deliver_def
  restart_if_pending_def send_heartbeat_def api_command_def connected_pppp_def call_def
  time_time_def time_sleep_def Let_def
  INSTANCE_LOG_INTERVAL_def HEARTBEAT_INTERVAL_def HEARTBEAT_FAIL_THRESHOLD_def RECONNECT_DELAY_def

lemma worker_run_restart_signal_example:
  "fst (worker_run (\<lambda>_. 7) host0 1
       (PPPPService_init\<lparr>api := Some session0, restart_pending := True\<rparr>, world0))
     = Some (ServiceRestartSignal ''Service needs restart'')
   \<and> \<not> stopping (PPPPService_init\<lparr>api := Some session0, restart_pending := True\<rparr>)
   \<and> restart_pending (PPPPService_init\<lparr>api := Some session0, restart_pending := True\<rparr>)
   \<and> \<not> restart_pending (fst (snd (worker_run (\<lambda>_. 7) host0 1
       (PPPPService_init\<lparr>api := Some session0, restart_pending := True\<rparr>, world0))))
   \<and> stopping (PPPPService_init\<lparr>stopping := True, restart_pending := True\<rparr>)
   \<and> worker_run (\<lambda>_. 7) host0 1
       (PPPPService_init\<lparr>stopping := True, restart_pending := True\<rparr>, world0)
      = (None, PPPPService_init\<lparr>stopping := True, restart_pending := True\<rparr>, world0)"
proof -
  have run: "fst (worker_run (\<lambda>_. 7) host0 1
       (PPPPService_init\<lparr>api := Some session0, restart_pending := True\<rparr>, world0)) \<noteq> None"
    by (simp add: worker_run_eval PPPPService_init_def session0_def host0_def world0_def)
  have st: "stopping (PPPPService_init\<lparr>stopping := True, restart_pending := True\<rparr>)"
    by simp
  from worker_run_restart_signal [of "\<lambda>_. 7" host0 1
      "PPPPService_init\<lparr>api := Some session0, restart_pending := True\<rparr>" world0]
    worker_run_restart_signal [of "\<lambda>_. 7" host0 1
      "PPPPService_init\<lparr>stopping := True, restart_pending := True\<rparr>" world0]
    run st
  show ?thesis by simp
qed


lemma worker_run_without_session:
  assumes "api self = None" and "\<not> stopping self"
  shows "fst (worker_run clk h timeout (self, w)) = None
    \<and> api (fst (snd (worker_run clk h timeout (self, w)))) = None
    \<and> \<not> stopping (fst (snd (worker_run clk h timeout (self, w))))
    \<and> (restart_pending self \<longrightarrow> restart_pending (fst (snd (worker_run clk h timeout (self, w)))))"
  using assms by (simp add: worker_run_def Let_def split: prod.splits)

text \<open>
  Claim C10. The raise and the stopping flag behave as the claim says, but a restart
  request is not consumed exactly once. Every branch of \<open>worker_run\<close> that sets
  \<open>restart_pending\<close> returns at once, and all but one of them have just dropped the
  session; a later call without a session returns from its first branch, before the place
  where the request would be raised and reset. So the request stays pending and is never
  raised, call after call, until something else installs a session.
\<close>

theorem restart_request_never_consumed:
  "fst (worker_run (\<lambda>_. 100) host0 1 (PPPPService_init, world0)) = None
   \<and> restart_pending (fst (snd (worker_run (\<lambda>_. 100) host0 1 (PPPPService_init, world0))))
   \<and> fst (worker_run (\<lambda>_. 100) host0 1
        (snd (worker_run (\<lambda>_. 100) host0 1 (PPPPService_init, world0)))) = None
   \<and> restart_pending (fst (snd (worker_run (\<lambda>_. 100) host0 1
        (snd (worker_run (\<lambda>_. 100) host0 1 (PPPPService_init, world0))))))
   \<and> fst (worker_run (\<lambda>_. 100) host0 1 (snd (worker_run (\<lambda>_. 100) host0 1
        (snd (worker_run (\<lambda>_. 100) host0 1 (PPPPService_init, world0)))))) = None
   \<and> restart_pending (fst (snd (worker_run (\<lambda>_. 100) host0 1 (snd (worker_run (\<lambda>_. 100) host0 1
        (snd (worker_run (\<lambda>_. 100) host0 1 (PPPPService_init, world0))))))))"
  by (simp add: worker_run_eval PPPPService_init_def host0_def world0_def)

lemma deliver_trace:
  "trace (deliver h fs d w) = trace w @ map (\<lambda>f. Handler_call f (fst d) (snd d)) fs"
  by (induction fs arbitrary: w) (simp_all add: Let_def split: option.splits)

lemma deliver_indep: "deliver (h\<lparr>handler_raises := r\<rparr>) fs d w = deliver h fs d w"
proof (induction fs arbitrary: w)
  case Nil
  then show ?case by simp
next
  case (Cons f fs)
  have "deliver h (f # fs) d w = deliver h fs d (w\<lparr>trace := trace w @ [Handler_call f (fst d) (snd d)]\<rparr>)"
    by (simp add: Let_def split: option.splits)
  moreover have "deliver (h\<lparr>handler_raises := r\<rparr>) (f # fs) d w
      = deliver (h\<lparr>handler_raises := r\<rparr>) fs d (w\<lparr>trace := trace w @ [Handler_call f (fst d) (snd d)]\<rparr>)"
    by (simp add: Let_def split: option.splits)
  ultimately show ?case by (simp only: Cons.IH)
qed

lemma call_indep: "call (h\<lparr>handler_raises := r\<rparr>) c w = call h c w"
  by (simp add: call_def)

lemma close_parts_indep: "close_parts (h\<lparr>handler_raises := r\<rparr>) mk js w = close_parts h mk js w"
  by (induction js arbitrary: w) (simp_all add: call_indep split: prod.splits)

lemma close_chans_indep: "close_chans (h\<lparr>handler_raises := r\<rparr>) mk chs w = close_chans h mk chs w"
  by (induction chs arbitrary: w) (simp_all add: close_parts_indep del: close_parts.simps)

lemma cleanup_close_stop_indep:
  "cleanup_close_stop (h\<lparr>handler_raises := r\<rparr>) a w = cleanup_close_stop h a w"
  by (simp add: cleanup_close_stop_def call_indep Let_def
      cong: if_cong prod.case_cong option.case_cong sum.case_cong bool.case_cong)

lemma cleanup_chans_indep:
  "cleanup_chans (h\<lparr>handler_raises := r\<rparr>) a w = cleanup_chans h a w"
  by (simp add: cleanup_chans_def call_indep close_chans_indep Let_def
      cong: if_cong prod.case_cong option.case_cong sum.case_cong bool.case_cong)

lemma cleanup_sock_indep:
  "cleanup_sock (h\<lparr>handler_raises := r\<rparr>) a w = cleanup_sock h a w"
  by (simp add: cleanup_sock_def call_indep Let_def
      cong: if_cong prod.case_cong option.case_cong sum.case_cong bool.case_cong)

lemma cleanup_drop_indep:
  "cleanup_drop clk (h\<lparr>handler_raises := r\<rparr>) sw = cleanup_drop clk h sw"
  by (simp add: cleanup_drop_def call_indep Let_def
      cong: if_cong prod.case_cong option.case_cong sum.case_cong bool.case_cong)

lemma cleanup_try_indep:
  "cleanup_try clk (h\<lparr>handler_raises := r\<rparr>) a sw = cleanup_try clk h a sw"
  by (simp add: cleanup_try_def cleanup_close_stop_indep cleanup_chans_indep
      cleanup_sock_indep cleanup_drop_indep Let_def
      cong: if_cong prod.case_cong option.case_cong sum.case_cong bool.case_cong)

lemma cleanup_except_indep:
  "cleanup_except clk (h\<lparr>handler_raises := r\<rparr>) sw = cleanup_except clk h sw"
  by (simp add: cleanup_except_def call_indep close_chans_indep Let_def
      cong: if_cong prod.case_cong option.case_cong sum.case_cong bool.case_cong)

lemma cleanup_connection_indep:
  "cleanup_connection clk (h\<lparr>handler_raises := r\<rparr>) sw = cleanup_connection clk h sw"
  by (simp add: cleanup_connection_def cleanup_try_indep cleanup_except_indep Let_def
      cong: if_cong prod.case_cong option.case_cong sum.case_cong bool.case_cong)

lemma api_command_indep:
  "api_command (h\<lparr>handler_raises := r\<rparr>) c self w = api_command h c self w"
  by (simp add: api_command_def call_indep Let_def
      cong: if_cong prod.case_cong option.case_cong sum.case_cong bool.case_cong)

lemma send_heartbeat_indep:
  "send_heartbeat (h\<lparr>handler_raises := r\<rparr>) sw = send_heartbeat h sw"
  by (simp add: send_heartbeat_def api_command_indep Let_def
      cong: if_cong prod.case_cong option.case_cong sum.case_cong bool.case_cong)

lemma heartbeat_step_indep:
  "heartbeat_step clk (h\<lparr>handler_raises := r\<rparr>) sw = heartbeat_step clk h sw"
  by (simp add: heartbeat_step_def send_heartbeat_indep Let_def
      cong: if_cong prod.case_cong option.case_cong sum.case_cong bool.case_cong)

lemma recv_process_deliver_indep:
  "recv_process_deliver (h\<lparr>handler_raises := r\<rparr>) timeout self w = recv_process_deliver h timeout self w"
  by (simp add: recv_process_deliver_def deliver_indep Let_def
      cong: if_cong prod.case_cong option.case_cong sum.case_cong bool.case_cong)

lemma worker_run_indep:
  "worker_run clk (h\<lparr>handler_raises := r\<rparr>) timeout sw = worker_run clk h timeout sw"
  by (simp add: worker_run_def cleanup_connection_indep heartbeat_step_indep
      recv_process_deliver_indep Let_def
      cong: if_cong prod.case_cong option.case_cong sum.case_cong bool.case_cong)

text \<open>
  Claim C7 (amended). When \<open>worker_run\<close> gets as far as receiving (not stopping, session
  present and not stopped, heartbeat not given up), \<open>recv\<close> returns a packet and
  \<open>process\<close> returns normally on it, the calls that follow are exactly one call of each
  registered handler with that packet, in the order of the list, whichever of them raise.
  What \<open>worker_run\<close> returns or raises and the state it leaves do not depend on which
  handlers raise: the session and the handler list stay, and nothing but a pending restart
  is raised. (A packet on which \<open>process\<close> raises reaches no handler.)
\<close>

theorem handlers_each_once:
  assumes "\<not> stopping self" and "api self = Some a" and "\<not> stopped a"
    and "heartbeat_step clk h (self, log_instance_count clk w) = (False, self1, w1)"
    and "recv h = Inr (Some msg)" and "process h msg = None"
  shows "trace (snd (snd (worker_run clk h timeout (self, w))))
      = trace w1 @ [Api_recv (min timeout HEARTBEAT_INTERVAL), Api_process msg]
          @ map (\<lambda>f. Handler_call f (chan msg) msg) (handlers self)
    \<and> fst (worker_run clk h timeout (self, w))
        = (if restart_pending self then Some (ServiceRestartSignal ''Service needs restart'')
           else None)
    \<and> api (fst (snd (worker_run clk h timeout (self, w)))) = Some a
    \<and> handlers (fst (snd (worker_run clk h timeout (self, w)))) = handlers self
    \<and> worker_run clk (h\<lparr>handler_raises := r\<rparr>) timeout (self, w) = worker_run clk h timeout (self, w)"
proof -
  note fr = heartbeat_step_frame [OF assms(4)]
  let ?w4 = "deliver h (handlers self1) (chan msg, msg)
      (w1\<lparr>trace := trace w1 @ [Api_recv (min timeout HEARTBEAT_INTERVAL), Api_process msg]\<rparr>)"
  have rpd: "recv_process_deliver h timeout self1 w1 = (None, ?w4)"
    by (simp add: recv_process_deliver_def assms(5,6))
  have run: "worker_run clk h timeout (self, w) = restart_if_pending (self1, ?w4)"
    by (simp add: worker_run_def assms(1-4) rpd)
  have tr: "trace ?w4 = trace w1 @ [Api_recv (min timeout HEARTBEAT_INTERVAL), Api_process msg]
          @ map (\<lambda>f. Handler_call f (chan msg) msg) (handlers self)"
    by (simp add: deliver_trace fr)
  show ?thesis
    using tr fr assms(1,2)
    by (simp add: run restart_if_pending_cases worker_run_indep)
qed

theorem handlers_each_once_witness:
  "trace (snd (snd (worker_run (\<lambda>_. 7) host1 1
      (PPPPService_init\<lparr>api := Some session0, handlers := [5, 6, 7]\<rparr>, world0))))
     = [Api_recv 1, Api_process msg0, Handler_call 5 (Some 1) msg0, Handler_call 6 (Some 1) msg0,
        Handler_call 7 (Some 1) msg0]
   \<and> fst (worker_run (\<lambda>_. 7) host1 1
      (PPPPService_init\<lparr>api := Some session0, handlers := [5, 6, 7]\<rparr>, world0)) = None
   \<and> api (fst (snd (worker_run (\<lambda>_. 7) host1 1
      (PPPPService_init\<lparr>api := Some session0, handlers := [5, 6, 7]\<rparr>, world0)))) = Some session0
   \<and> handler_raises host1 5 (chan msg0, msg0) \<noteq> None
   \<and> handler_raises host1 6 (chan msg0, msg0) \<noteq> None"
proof -
  let ?s = "PPPPService_init\<lparr>api := Some session0, handlers := [5, 6, 7]\<rparr>"
  have a: "\<not> stopping ?s" "api ?s = Some session0" "\<not> stopped session0"
    by (simp_all add: PPPPService_init_def session0_def)
  have hb: "heartbeat_step (\<lambda>_. 7) host1 (?s, log_instance_count (\<lambda>_. 7) world0)
      = (False, ?s, world0\<lparr>ticks := 2\<rparr>)"
    by (simp add: worker_run_eval PPPPService_init_def world0_def numeral_2_eq_2)
  have r: "recv host1 = Inr (Some msg0)" "process host1 msg0 = None"
    by (simp_all add: host1_def host0_def)
  from handlers_each_once [OF a hb r, of 1]
  show ?thesis
    by (simp add: PPPPService_init_def world0_def host1_def host0_def msg0_def HEARTBEAT_INTERVAL_def)
qed

theorem handlers_each_once_counterexample:
  "recv (host1\<lparr>process := (\<lambda>_. Some TimeoutError)\<rparr>) = Inr (Some msg0)
   \<and> trace (snd (snd (worker_run (\<lambda>_. 7) (host1\<lparr>process := (\<lambda>_. Some TimeoutError)\<rparr>) 1
        (PPPPService_init\<lparr>api := Some session0, handlers := [5, 6, 7]\<rparr>, world0))))
      = [Api_recv 1, Api_process msg0]
   \<and> fst (worker_run (\<lambda>_. 7) (host1\<lparr>process := (\<lambda>_. Some TimeoutError)\<rparr>) 1
        (PPPPService_init\<lparr>api := Some session0, handlers := [5, 6, 7]\<rparr>, world0)) = None
   \<and> trace (snd (snd (worker_run (\<lambda>_. 7)
        (host1\<lparr>process := (\<lambda>_. Some (OtherException ''bad packet''))\<rparr>) 1
        (PPPPService_init\<lparr>api := Some session0, handlers := [5, 6, 7]\<rparr>, world0))))
      = [Api_recv 1, Api_process msg0]
   \<and> handlers (fst (snd (worker_run (\<lambda>_. 7)
        (host1\<lparr>process := (\<lambda>_. Some (OtherException ''bad packet''))\<rparr>) 1
        (PPPPService_init\<lparr>api := Some session0, handlers := [5, 6, 7]\<rparr>, world0))))
      = [5, 6, 7]"
  by (simp add: worker_run_eval PPPPService_init_def host1_def host0_def world0_def session0_def
      msg0_def)

end
